theory Spec2Isabelle
  imports Complex_Main
begin

section \<open>Conventions of the embedding\<close>

text \<open>
  The request handlers of the back office are embedded as functions over an explicit
  database state. JavaScript numbers are idealised: quantities are integers, money is a
  rational number, so \<open>Math.round(x * 100) / 100\<close> is exact. A value that may be
  \<open>undefined\<close> or \<open>null\<close> is an \<open>option\<close>; the constants of an enum object are looked up
  by key, so that a key the object does not have yields \<open>None\<close> as it yields
  \<open>undefined\<close> in the source. Timestamps that no decision reads (\<open>createdAt\<close>,
  \<open>lastUpdated\<close>, \<open>voidedAt\<close>) and the display snapshots (\<open>productName\<close>, \<open>sku\<close>,
  \<open>serialNumber\<close>, the customer and the device of a repair job) are left out of the
  documents. \<open>create\<close> and \<open>save\<close> run the validators of the schema on the whole
  document and throw before anything is written; a field the schema does not declare is
  not persisted.
\<close>

subsection \<open>JavaScript helpers\<close>

definition round2 :: "rat \<Rightarrow> rat" where
  \<comment> \<open>\<open>Math.round(x * 100) / 100\<close>; \<open>Math.round\<close> rounds a half towards plus infinity.\<close>
  "round2 x = of_int \<lfloor>x * 100 + 1 / 2\<rfloor> / 100"

definition truthy :: "string option \<Rightarrow> bool" where
  \<comment> \<open>a string field of a request body is falsy when it is missing or empty\<close>
  "truthy v = (case v of None \<Rightarrow> False | Some t \<Rightarrow> t \<noteq> [])"

definition is_space :: "char \<Rightarrow> bool" where
  "is_space c = (c = CHR '' '' \<or> c = CHR 0x09 \<or> c = CHR 0x0A \<or> c = CHR 0x0B
                 \<or> c = CHR 0x0C \<or> c = CHR 0x0D)"

definition trim :: "string \<Rightarrow> string" where
  \<comment> \<open>the schema option \<open>trim: true\<close>, on the ASCII white space\<close>
  "trim t = rev (dropWhile is_space (rev (dropWhile is_space t)))"

definition Object_values :: "(string \<times> string) list \<Rightarrow> string list" where
  "Object_values obj = map snd obj"

definition enum_ok :: "string list \<Rightarrow> string option \<Rightarrow> bool" where
  \<comment> \<open>the schema validator \<open>enum\<close>: it is not run on a missing value\<close>
  "enum_ok vals v = (case v of None \<Rightarrow> True | Some t \<Rightarrow> t \<in> set vals)"

section \<open>Authorization middleware (middlewares/auth/authorize.js)\<close>

















section \<open>Documents and the database\<close>

text \<open>
  A failure of a handler is a value: \<open>AppError\<close> is the operational error the handlers
  pass to \<open>next\<close> (status code and message, without the interpolated details),
  \<open>ValidationError\<close> is what \<open>save\<close> and \<open>create\<close> throw when a document violates its
  schema, \<open>TypeError\<close> is a property read on \<open>null\<close>.
\<close>

datatype error = AppError nat string | ValidationError string | TypeError string

record product =
  product_isActive :: bool
  product_sellingPrice :: rat
  product_costPrice :: rat
  product_taxRate :: rat
  product_warrantyDuration :: int
  product_warrantyType :: "string option"

datatype reference = NoRef | TextRef string | DocRef nat

record stock_adjustment =
  adj_product :: nat
  adj_type :: "string option"
  adj_quantity :: int
  adj_previousQuantity :: int
  adj_newQuantity :: int
  adj_reason :: "string option"
  adj_reference :: reference
  adj_referenceType :: "string option"
  adj_createdBy :: nat

record sale_item =
  si_product :: nat
  si_quantity :: int
  si_unitPrice :: rat
  si_discount :: rat
  si_total :: rat

record payment =
  pay_method :: string
  pay_amount :: rat

record customer =
  cust_name :: "string option"
  cust_phone :: "string option"
  cust_email :: "string option"

record sale =
  sale_saleNumber :: string
  sale_items :: "sale_item list"
  sale_payments :: "payment list"
  sale_customer :: "customer option"
  sale_subtotal :: rat
  sale_discountType :: "string option"
  sale_discountValue :: rat
  sale_discountTotal :: rat
  sale_grandTotal :: rat
  sale_amountPaid :: rat
  sale_changeGiven :: rat
  sale_status :: "string option"
  sale_notes :: "string option"
  sale_createdBy :: nat
  sale_voidedBy :: "nat option"
  sale_voidReason :: "string option"

record return_item =
  ri_product :: nat
  ri_quantity :: int
  ri_unitPrice :: rat
  ri_refundAmount :: rat

record return_record =
  ret_returnNumber :: string
  ret_originalSale :: "nat option"
  ret_returnType :: "string option"
  ret_items :: "return_item list"
  ret_totalRefund :: rat
  ret_exchangeSale :: "nat option"
  ret_exchangeAmountDue :: rat
  ret_reason :: "string option"
  ret_refundMethod :: "string option"
  ret_status :: "string option"
  ret_notes :: "string option"
  ret_createdBy :: nat

record part_used =
  pu_product :: nat
  pu_quantity :: int
  pu_unitPrice :: rat
  pu_total :: rat

record repair_job =
  rj_jobNumber :: string
  rj_status :: "string option"
  rj_problemDescription :: string
  rj_diagnosisNotes :: "string option"
  rj_repairNotes :: "string option"
  rj_assignedTo :: "nat option"
  rj_partsUsed :: "part_used list"
  rj_laborCost :: rat
  rj_partsTotal :: rat
  rj_totalCost :: rat
  rj_advancePayment :: rat
  rj_finalPayment :: rat
  rj_paymentStatus :: "string option"
  rj_completedBy :: "nat option"
  rj_cancelledBy :: "nat option"
  rj_cancelReason :: "string option"

record claim =
  cl_claimNumber :: string
  cl_issue :: string
  cl_resolution :: "string option"
  cl_repairJob :: "nat option"
  cl_replacementProduct :: "nat option"
  cl_returnRecord :: "nat option"
  cl_refundAmount :: rat
  cl_claimCost :: rat
  cl_notes :: "string option"
  cl_processedBy :: nat

record warranty =
  w_warrantyNumber :: string
  w_sourceType :: string
  w_sale :: "nat option"
  w_product :: nat
  w_customer :: customer
  w_warrantyType :: "string option"
  w_durationMonths :: int
  w_startDate :: int
  w_endDate :: int
  w_status :: "string option"
  w_claims :: "claim list"
  w_voidedBy :: "nat option"
  w_voidReason :: "string option"
  w_createdBy :: nat

text \<open>
  The collections. Products and stock records are keyed by the product id (the stock
  schema makes \<open>product\<close> unique); the other collections only grow, and the id of a
  document is its position in the collection. The embedded \<open>_id\<close> of a sale line is its
  position in the sale.
\<close>

record db =
  products :: "nat \<rightharpoonup> product"
  stocks :: "nat \<rightharpoonup> int"
  adjustments :: "stock_adjustment list"
  sales :: "sale list"
  returns :: "return_record list"
  repairs :: "repair_job list"
  warranties :: "warranty list"

text \<open>
  What a request brings besides its body: the authenticated user, the clock, and the
  business numbers that the generators (\<open>generateSaleNumber\<close> and its siblings, which
  scan the day's documents) hand out; \<open>ctx_addMonths\<close> is \<open>Date.setMonth\<close>.
\<close>

record ctx =
  ctx_userId :: nat
  ctx_now :: int
  ctx_saleNumber :: string
  ctx_returnNumber :: string
  ctx_jobNumber :: string
  ctx_claimNumber :: string
  ctx_warrantyNumber :: "nat \<Rightarrow> string"
  ctx_addMonths :: "int \<Rightarrow> int \<Rightarrow> int"

type_synonym 'a io = "db \<Rightarrow> (error + 'a) \<times> db"

definition io_return :: "'a \<Rightarrow> 'a io" where
  "io_return x = (\<lambda>s. (Inr x, s))"

definition io_throw :: "error \<Rightarrow> 'a io" where
  "io_throw e = (\<lambda>s. (Inl e, s))"

definition io_bind :: "'a io \<Rightarrow> ('a \<Rightarrow> 'b io) \<Rightarrow> 'b io" where
  \<comment> \<open>\<open>await\<close>: a rejected promise ends the handler, what was written stays written\<close>
  "io_bind m f = (\<lambda>s. case m s of (Inl e, s') \<Rightarrow> (Inl e, s') | (Inr x, s') \<Rightarrow> f x s')"

fun forEach :: "('a \<Rightarrow> unit io) \<Rightarrow> 'a list \<Rightarrow> unit io" where
  \<comment> \<open>\<open>for (const x of xs) { await body(x) }\<close>\<close>
  "forEach body [] = io_return ()"
| "forEach body (x # xs) = io_bind (body x) (\<lambda>_. forEach body xs)"

definition findById :: "'a list \<Rightarrow> nat \<Rightarrow> 'a option" where
  "findById coll i = (if i < length coll then Some (coll ! i) else None)"

definition enum_get :: "(string \<times> string) list \<Rightarrow> string \<Rightarrow> string option" where
  \<comment> \<open>\<open>OBJ.KEY\<close>: \<open>undefined\<close> when the object has no such key\<close>
  "enum_get obj key = map_of obj key"

section \<open>Stock ledger (models/inventory, controllers/inventory)\<close>

definition ADJUSTMENT_TYPES :: "(string \<times> string) list" where
  "ADJUSTMENT_TYPES =
     [(''ADDITION'', ''ADDITION''), (''REDUCTION'', ''REDUCTION''),
      (''PURCHASE'', ''PURCHASE''), (''SALE'', ''SALE''), (''RETURN'', ''RETURN''),
      (''DAMAGE'', ''DAMAGE''), (''THEFT'', ''THEFT''), (''CORRECTION'', ''CORRECTION''),
      (''TRANSFER_IN'', ''TRANSFER_IN''), (''TRANSFER_OUT'', ''TRANSFER_OUT'')]"

definition qty :: "db \<Rightarrow> nat \<Rightarrow> int" where
  \<comment> \<open>\<open>stock ? stock.quantity : 0\<close>: the quantity every reader sees\<close>
  "qty s productId = (case stocks s productId of None \<Rightarrow> 0 | Some q \<Rightarrow> q)"

definition Stock_getOrCreate :: "nat \<Rightarrow> int io" where
  \<comment> \<open>returns the quantity of the record found or created\<close>
  "Stock_getOrCreate productId s =
     (case stocks s productId of
        Some q \<Rightarrow> (Inr q, s)
      | None \<Rightarrow> (Inr 0, s\<lparr>stocks := (stocks s)(productId \<mapsto> 0)\<rparr>))"

definition Stock_save :: "nat \<Rightarrow> int \<Rightarrow> unit io" where
  \<comment> \<open>\<open>stock.quantity = q; await stock.save()\<close> under \<open>min: [0, ...]\<close>\<close>
  "Stock_save productId q s =
     (if q < 0 then (Inl (ValidationError ''Stock quantity cannot be negative''), s)
      else (Inr (), s\<lparr>stocks := (stocks s)(productId \<mapsto> q)\<rparr>))"

definition text_ok :: "nat \<Rightarrow> string option \<Rightarrow> bool" where
  \<comment> \<open>\<open>trim: true, maxlength: n\<close> on an optional string\<close>
  "text_ok n v = (case v of None \<Rightarrow> True | Some t \<Rightarrow> length (trim t) \<le> n)"

definition adjustment_valid :: "stock_adjustment \<Rightarrow> bool" where
  \<comment> \<open>the validators of \<open>stockAdjustmentSchema\<close>\<close>
  "adjustment_valid a =
     (case adj_type a of
        None \<Rightarrow> False
      | Some t \<Rightarrow>
          t \<in> set (Object_values ADJUSTMENT_TYPES)
          \<and> 1 \<le> adj_quantity a
          \<and> text_ok 500 (adj_reason a)
          \<and> enum_ok [''Sale'', ''Purchase'', ''Transfer'', ''Manual''] (adj_referenceType a))"

definition StockAdjustment_create :: "stock_adjustment \<Rightarrow> unit io" where
  "StockAdjustment_create a s =
     (if adjustment_valid a
      then (Inr (), s\<lparr>adjustments := adjustments s @
              [a\<lparr>adj_reason := map_option trim (adj_reason a),
                 adj_referenceType := (case adj_referenceType a of
                                         None \<Rightarrow> Some ''Manual'' | Some t \<Rightarrow> Some t)\<rparr>]\<rparr>)
      else (Inl (ValidationError ''StockAdjustment validation failed''), s))"

record adjust_request =
  ar_productId :: "nat option"
  ar_type :: "string option"
  ar_quantity :: "int option"
  ar_reason :: "string option"
  ar_reference :: "string option"
  ar_referenceType :: "string option"

record adjust_result =
  res_previousQuantity :: int
  res_newQuantity :: int
  res_change :: int

definition adjustStock :: "ctx \<Rightarrow> adjust_request \<Rightarrow> adjust_result io" where
  "adjustStock c body =
     (case (ar_productId body, ar_type body, ar_quantity body) of
        (Some productId, Some type, Some quantity) \<Rightarrow>
          if type = [] then io_throw (AppError 400 ''Product ID, type, and quantity are required'')
          else if quantity = 0
          then io_throw (AppError 400 ''Product ID, type, and quantity are required'')
          else if type \<notin> set (Object_values ADJUSTMENT_TYPES)
          then io_throw (AppError 400 ''Invalid adjustment type'')
          else if quantity \<le> 0
          then io_throw (AppError 400 ''Quantity must be a positive number'')
          else (\<lambda>s. case products s productId of
                  None \<Rightarrow> (Inl (AppError 404 ''Product not found''), s)
                | Some product \<Rightarrow>
                    io_bind (Stock_getOrCreate productId) (\<lambda>previousQuantity.
                      let isAddition = (type \<in> set [''ADDITION'', ''PURCHASE'', ''RETURN'',
                                                    ''TRANSFER_IN'', ''CORRECTION'']);
                          newQuantity =
                            (if type = ''CORRECTION''
                             then (if isAddition then previousQuantity + quantity
                                   else previousQuantity - quantity)
                             else (if isAddition then previousQuantity + quantity
                                   else previousQuantity - quantity))
                      in if newQuantity < 0
                         then io_throw (AppError 400 ''Insufficient stock'')
                         else
                           io_bind (Stock_save productId newQuantity) (\<lambda>_.
                           io_bind (StockAdjustment_create
                                      \<lparr>adj_product = productId,
                                       adj_type = Some type,
                                       adj_quantity = quantity,
                                       adj_previousQuantity = previousQuantity,
                                       adj_newQuantity = newQuantity,
                                       adj_reason = ar_reason body,
                                       adj_reference = (case ar_reference body of
                                                          None \<Rightarrow> NoRef
                                                        | Some r \<Rightarrow> TextRef r),
                                       adj_referenceType =
                                         (if truthy (ar_referenceType body)
                                          then ar_referenceType body
                                          else Some ''Manual''),
                                       adj_createdBy = ctx_userId c\<rparr>) (\<lambda>_.
                           io_return \<lparr>res_previousQuantity = previousQuantity,
                                      res_newQuantity = newQuantity,
                                      res_change = newQuantity - previousQuantity\<rparr>))) s)
      | _ \<Rightarrow> io_throw (AppError 400 ''Product ID, type, and quantity are required''))"

section \<open>Sales (models/sale/saleModel.js, controllers/sale/saleController.js)\<close>

definition SALE_STATUS :: "(string \<times> string) list" where
  "SALE_STATUS = [(''PENDING'', ''PENDING''), (''COMPLETED'', ''COMPLETED''),
                  (''VOIDED'', ''VOIDED'')]"

definition DISCOUNT_TYPES :: "(string \<times> string) list" where
  "DISCOUNT_TYPES = [(''PERCENTAGE'', ''PERCENTAGE''), (''FIXED'', ''FIXED'')]"

definition PAYMENT_METHODS :: "(string \<times> string) list" where
  "PAYMENT_METHODS = [(''CASH'', ''CASH''), (''CARD'', ''CARD''), (''OTHER'', ''OTHER'')]"

definition WARRANTY_STATUS :: "(string \<times> string) list" where
  "WARRANTY_STATUS = [(''ACTIVE'', ''ACTIVE''), (''EXPIRED'', ''EXPIRED''),
                      (''CLAIMED'', ''CLAIMED''), (''VOID'', ''VOID'')]"

definition WARRANTY_TYPES :: "(string \<times> string) list" where
  "WARRANTY_TYPES = [(''MANUFACTURER'', ''MANUFACTURER''), (''SHOP'', ''SHOP''),
                     (''EXTENDED'', ''EXTENDED''), (''REPAIR'', ''REPAIR'')]"

definition CLAIM_RESOLUTIONS :: "(string \<times> string) list" where
  "CLAIM_RESOLUTIONS = [(''REPAIR'', ''REPAIR''), (''REPLACE'', ''REPLACE''),
                        (''REFUND'', ''REFUND''), (''REJECTED'', ''REJECTED'')]"

definition num_or :: "rat option \<Rightarrow> rat \<Rightarrow> rat" where
  \<comment> \<open>\<open>v || d\<close> on an optional number\<close>
  "num_or v d = (case v of None \<Rightarrow> d | Some x \<Rightarrow> if x = 0 then d else x)"

definition str_or_null :: "string option \<Rightarrow> string option" where
  \<comment> \<open>\<open>v || null\<close> on an optional string\<close>
  "str_or_null v = (if truthy v then v else None)"

record sale_item_request =
  sir_productId :: nat
  sir_quantity :: int
  sir_unitPrice :: "rat option"
  sir_discount :: "rat option"

record payment_request =
  pr_method :: "string option"
  pr_amount :: rat

record sale_request =
  sr_items :: "sale_item_request list option"
  sr_payments :: "payment_request list option"
  sr_discountType :: "string option"
  sr_discountValue :: "rat option"
  sr_customer :: "customer option"
  sr_notes :: "string option"

fun process_items ::
  "db \<Rightarrow> sale_item_request list \<Rightarrow> sale_item list \<Rightarrow> rat \<Rightarrow> rat
   \<Rightarrow> error + (sale_item list \<times> rat \<times> rat)" where
  \<comment> \<open>the first loop of \<open>createSale\<close>; the accumulators are \<open>processedItems\<close>,
      \<open>subtotal\<close> and \<open>taxTotal\<close>. The schema of a sale line has no \<open>taxRate\<close> and no
      \<open>taxAmount\<close>, so the processed line keeps the fields that are persisted.\<close>
  "process_items s [] processedItems subtotal taxTotal =
     Inr (processedItems, subtotal, taxTotal)"
| "process_items s (item # items) processedItems subtotal taxTotal =
     (case products s (sir_productId item) of
        None \<Rightarrow> Inl (AppError 404 ''Product not found'')
      | Some product \<Rightarrow>
          if \<not> product_isActive product then Inl (AppError 400 ''Product is not available'')
          else
            let currentQty = qty s (sir_productId item)
            in if currentQty < sir_quantity item
               then Inl (AppError 400 ''Insufficient stock'')
               else
                 let unitPrice = num_or (sir_unitPrice item) (product_sellingPrice product);
                     quantity = sir_quantity item;
                     taxRate = product_taxRate product;
                     itemDiscount = num_or (sir_discount item) 0;
                     itemSubtotal = unitPrice * of_int quantity;
                     taxAmount = (itemSubtotal - itemDiscount) * (taxRate / 100);
                     itemTotal = itemSubtotal - itemDiscount + taxAmount
                 in process_items s items
                      (processedItems @
                         [\<lparr>si_product = sir_productId item, si_quantity = quantity,
                           si_unitPrice = unitPrice, si_discount = itemDiscount,
                           si_total = round2 itemTotal\<rparr>])
                      (subtotal + itemSubtotal) (taxTotal + taxAmount))"

fun process_payments :: "payment_request list \<Rightarrow> payment list \<Rightarrow> rat \<Rightarrow> payment list \<times> rat" where
  \<comment> \<open>the loop over \<open>payments\<close>; the accumulators are \<open>processedPayments\<close> and
      \<open>amountPaid\<close>\<close>
  "process_payments [] processedPayments amountPaid = (processedPayments, amountPaid)"
| "process_payments (payment # payments) processedPayments amountPaid =
     (if pr_amount payment > 0
      then process_payments payments
             (processedPayments @
                [\<lparr>pay_method = (case pr_method payment of
                                   None \<Rightarrow> ''CASH''
                                 | Some m \<Rightarrow> if m = [] then ''CASH'' else m),
                  pay_amount = pr_amount payment\<rparr>])
             (amountPaid + pr_amount payment)
      else process_payments payments processedPayments amountPaid)"

definition sale_item_valid :: "sale_item \<Rightarrow> bool" where
  "sale_item_valid i = (1 \<le> si_quantity i \<and> 0 \<le> si_unitPrice i \<and> 0 \<le> si_discount i)"

definition payment_valid :: "payment \<Rightarrow> bool" where
  "payment_valid p =
     (pay_method p \<in> set (Object_values PAYMENT_METHODS) \<and> 1 / 100 \<le> pay_amount p)"

definition sale_valid :: "sale \<Rightarrow> bool" where
  \<comment> \<open>the validators of \<open>saleSchema\<close>\<close>
  "sale_valid d =
     (sale_saleNumber d \<noteq> []
      \<and> sale_items d \<noteq> [] \<and> list_all sale_item_valid (sale_items d)
      \<and> list_all payment_valid (sale_payments d)
      \<and> 0 \<le> sale_subtotal d
      \<and> enum_ok (Object_values DISCOUNT_TYPES) (sale_discountType d)
      \<and> 0 \<le> sale_discountValue d \<and> 0 \<le> sale_discountTotal d
      \<and> 0 \<le> sale_grandTotal d \<and> 0 \<le> sale_amountPaid d \<and> 0 \<le> sale_changeGiven d
      \<and> enum_ok (Object_values SALE_STATUS) (sale_status d)
      \<and> text_ok 500 (sale_notes d) \<and> text_ok 500 (sale_voidReason d))"

definition Sale_create :: "sale \<Rightarrow> nat io" where
  \<comment> \<open>returns the id of the new document\<close>
  "Sale_create d s =
     (if sale_valid d
      then (Inr (length (sales s)),
            s\<lparr>sales := sales s @ [d\<lparr>sale_notes := map_option trim (sale_notes d)\<rparr>]\<rparr>)
      else (Inl (ValidationError ''Sale validation failed''), s))"

definition Sale_save :: "nat \<Rightarrow> sale \<Rightarrow> unit io" where
  \<comment> \<open>\<open>sale.save()\<close>: the document is validated, then written in place\<close>
  "Sale_save saleId d s =
     (if sale_valid d
      then (Inr (), s\<lparr>sales := (sales s)
              [saleId := d\<lparr>sale_notes := map_option trim (sale_notes d),
                           sale_voidReason := map_option trim (sale_voidReason d)\<rparr>]\<rparr>)
      else (Inl (ValidationError ''Sale validation failed''), s))"

definition claim_valid :: "claim \<Rightarrow> bool" where
  \<comment> \<open>the validators of \<open>claimSchema\<close>\<close>
  "claim_valid cl =
     (cl_claimNumber cl \<noteq> []
      \<and> trim (cl_issue cl) \<noteq> [] \<and> length (trim (cl_issue cl)) \<le> 1000
      \<and> enum_ok (Object_values CLAIM_RESOLUTIONS) (cl_resolution cl)
      \<and> 0 \<le> cl_refundAmount cl \<and> 0 \<le> cl_claimCost cl
      \<and> text_ok 1000 (cl_notes cl))"

definition warranty_valid :: "warranty \<Rightarrow> bool" where
  \<comment> \<open>the validators of \<open>warrantySchema\<close>\<close>
  "warranty_valid w =
     (w_warrantyNumber w \<noteq> []
      \<and> w_sourceType w \<in> set [''SALE'', ''REPAIR'', ''MANUAL'']
      \<and> truthy (map_option trim (cust_name (w_customer w)))
      \<and> truthy (map_option trim (cust_phone (w_customer w)))
      \<and> (case w_warrantyType w of
            None \<Rightarrow> False | Some t \<Rightarrow> t \<in> set (Object_values WARRANTY_TYPES))
      \<and> 1 \<le> w_durationMonths w
      \<and> enum_ok (Object_values WARRANTY_STATUS) (w_status w)
      \<and> list_all claim_valid (w_claims w)
      \<and> text_ok 500 (w_voidReason w))"

definition warranty_pre_save :: "int \<Rightarrow> warranty \<Rightarrow> warranty" where
  \<comment> \<open>\<open>warrantySchema.pre("save")\<close>\<close>
  "warranty_pre_save now w =
     (if w_status w = enum_get WARRANTY_STATUS ''ACTIVE'' \<and> now > w_endDate w
      then w\<lparr>w_status := enum_get WARRANTY_STATUS ''EXPIRED''\<rparr> else w)"

definition Warranty_create :: "int \<Rightarrow> warranty \<Rightarrow> nat io" where
  "Warranty_create now w s =
     (if warranty_valid w
      then (Inr (length (warranties s)),
            s\<lparr>warranties := warranties s @ [warranty_pre_save now w]\<rparr>)
      else (Inl (ValidationError ''Warranty validation failed''), s))"

definition deduct_item :: "ctx \<Rightarrow> string \<Rightarrow> nat \<Rightarrow> sale_item \<Rightarrow> unit io" where
  \<comment> \<open>the body of the loop "Deduct inventory for each item" of \<open>createSale\<close> and of
      "Deduct stock for new items" of \<open>createExchange\<close>; \<open>what\<close> is \<open>Sale: ${saleNumber}\<close>
      with the prefix \<open>Exchange\<close> in the latter\<close>
  "deduct_item c what saleId item =
     io_bind (Stock_getOrCreate (si_product item)) (\<lambda>previousQuantity.
       let newQuantity = previousQuantity - si_quantity item
       in io_bind (Stock_save (si_product item) newQuantity) (\<lambda>_.
          StockAdjustment_create
            \<lparr>adj_product = si_product item,
             adj_type = enum_get ADJUSTMENT_TYPES ''SALE'',
             adj_quantity = si_quantity item,
             adj_previousQuantity = previousQuantity,
             adj_newQuantity = newQuantity,
             adj_reason = Some what,
             adj_reference = DocRef saleId,
             adj_referenceType = Some ''Sale'',
             adj_createdBy = ctx_userId c\<rparr>))"

definition create_item_warranties ::
  "ctx \<Rightarrow> nat \<Rightarrow> customer \<Rightarrow> sale_item \<Rightarrow> unit io" where
  \<comment> \<open>the body of the loop "Auto-create warranties": one warranty per unit sold\<close>
  "create_item_warranties c saleId cust item =
     (\<lambda>s. case products s (si_product item) of
        None \<Rightarrow> (Inr (), s)
      | Some product \<Rightarrow>
          if product_warrantyDuration product > 0
          then forEach (\<lambda>i. (\<lambda>s'.
                 io_bind (Warranty_create (ctx_now c)
                   \<lparr>w_warrantyNumber = ctx_warrantyNumber c (length (warranties s')),
                    w_sourceType = ''SALE'',
                    w_sale = Some saleId,
                    w_product = si_product item,
                    w_customer = \<lparr>cust_name = cust_name cust, cust_phone = cust_phone cust,
                                   cust_email = str_or_null (cust_email cust)\<rparr>,
                    w_warrantyType = (if truthy (product_warrantyType product)
                                      then product_warrantyType product else Some ''SHOP''),
                    w_durationMonths = product_warrantyDuration product,
                    w_startDate = ctx_now c,
                    w_endDate = ctx_addMonths c (ctx_now c) (product_warrantyDuration product),
                    w_status = Some ''ACTIVE'',
                    w_claims = [],
                    w_voidedBy = None,
                    w_voidReason = None,
                    w_createdBy = ctx_userId c\<rparr>) (\<lambda>_. io_return ()) s'))
                 [0 ..< nat (si_quantity item)] s
          else (Inr (), s))"

definition sale_totals :: "sale_request \<Rightarrow> rat \<Rightarrow> rat \<Rightarrow> rat \<times> rat" where
  \<comment> \<open>"Calculate discount" and "Calculate grand total": \<open>discountTotal\<close> and
      \<open>grandTotal\<close>\<close>
  "sale_totals body subtotal taxTotal =
     (let discountValue = (case sr_discountValue body of None \<Rightarrow> 0 | Some v \<Rightarrow> v);
          discountTotal =
            (if truthy (sr_discountType body) \<and> discountValue > 0
             then (if sr_discountType body = enum_get DISCOUNT_TYPES ''PERCENTAGE''
                   then (subtotal * discountValue) / 100
                   else if sr_discountType body = enum_get DISCOUNT_TYPES ''FIXED''
                   then discountValue
                   else 0)
             else 0)
      in (discountTotal, round2 (subtotal - discountTotal + taxTotal)))"

definition new_sale :: "ctx \<Rightarrow> sale_request \<Rightarrow> sale_item list \<Rightarrow> rat \<Rightarrow> rat \<Rightarrow> sale" where
  \<comment> \<open>the document \<open>createSale\<close> passes to \<open>Sale.create\<close>\<close>
  "new_sale c body processedItems subtotal taxTotal =
     (let (discountTotal, grandTotal) = sale_totals body subtotal taxTotal;
          (processedPayments, amountPaid) =
            (case sr_payments body of
               None \<Rightarrow> ([], 0)
             | Some payments \<Rightarrow> process_payments payments [] 0);
          changeGiven = max 0 (amountPaid - grandTotal)
      in \<lparr>sale_saleNumber = ctx_saleNumber c,
          sale_items = processedItems,
          sale_payments = processedPayments,
          sale_customer =
            (case sr_customer body of
               None \<Rightarrow> None
             | Some cust \<Rightarrow>
                 Some \<lparr>cust_name = str_or_null (cust_name cust),
                       cust_phone = str_or_null (cust_phone cust),
                       cust_email = str_or_null (cust_email cust)\<rparr>),
          sale_subtotal = round2 subtotal,
          sale_discountType = str_or_null (sr_discountType body),
          sale_discountValue = (case sr_discountValue body of None \<Rightarrow> 0 | Some v \<Rightarrow> v),
          sale_discountTotal = round2 discountTotal,
          sale_grandTotal = grandTotal,
          sale_amountPaid = amountPaid,
          sale_changeGiven = round2 changeGiven,
          sale_status = enum_get SALE_STATUS ''COMPLETED'',
          sale_notes = sr_notes body,
          sale_createdBy = ctx_userId c,
          sale_voidedBy = None,
          sale_voidReason = None\<rparr>)"

definition createSale :: "ctx \<Rightarrow> sale_request \<Rightarrow> nat io" where
  \<comment> \<open>returns the id of the sale\<close>
  "createSale c body =
     (case sr_items body of
        None \<Rightarrow> io_throw (AppError 400 ''Sale must have at least one item'')
      | Some items \<Rightarrow>
          if items = [] then io_throw (AppError 400 ''Sale must have at least one item'')
          else (\<lambda>s.
            case process_items s items [] 0 0 of
              Inl e \<Rightarrow> (Inl e, s)
            | Inr (processedItems, subtotal, taxTotal) \<Rightarrow>
                io_bind (Sale_create (new_sale c body processedItems subtotal taxTotal))
                  (\<lambda>saleId.
                io_bind (forEach (deduct_item c (''Sale: '' @ ctx_saleNumber c) saleId)
                           processedItems) (\<lambda>_.
                io_bind (case sr_customer body of
                           None \<Rightarrow> io_return ()
                         | Some cust \<Rightarrow>
                             if truthy (cust_phone cust) \<and> truthy (cust_name cust)
                             then forEach (create_item_warranties c saleId cust)
                                    processedItems
                             else io_return ()) (\<lambda>_.
                io_return saleId))) s))"

definition restore_item :: "ctx \<Rightarrow> string \<Rightarrow> nat \<Rightarrow> sale_item \<Rightarrow> unit io" where
  \<comment> \<open>the body of the loop "Restore inventory" of \<open>voidSale\<close>\<close>
  "restore_item c reasonText saleId item =
     io_bind (Stock_getOrCreate (si_product item)) (\<lambda>previousQuantity.
       let newQuantity = previousQuantity + si_quantity item
       in io_bind (Stock_save (si_product item) newQuantity) (\<lambda>_.
          StockAdjustment_create
            \<lparr>adj_product = si_product item,
             adj_type = enum_get ADJUSTMENT_TYPES ''RETURN'',
             adj_quantity = si_quantity item,
             adj_previousQuantity = previousQuantity,
             adj_newQuantity = newQuantity,
             adj_reason = Some reasonText,
             adj_reference = DocRef saleId,
             adj_referenceType = Some ''Sale'',
             adj_createdBy = ctx_userId c\<rparr>))"

definition voidSale :: "ctx \<Rightarrow> nat \<Rightarrow> string option \<Rightarrow> unit io" where
  "voidSale c saleId reason =
     (case reason of
        None \<Rightarrow> io_throw (AppError 400 ''Void reason is required'')
      | Some reasonText \<Rightarrow>
          if reasonText = [] then io_throw (AppError 400 ''Void reason is required'')
          else (\<lambda>s.
            case findById (sales s) saleId of
              None \<Rightarrow> (Inl (AppError 404 ''Sale not found''), s)
            | Some sale \<Rightarrow>
                if sale_status sale = enum_get SALE_STATUS ''VOIDED''
                then (Inl (AppError 400 ''Sale is already voided''), s)
                else
                  io_bind (forEach
                             (restore_item c
                                (''Void Sale: '' @ sale_saleNumber sale @ '' - '' @ reasonText)
                                saleId)
                             (sale_items sale)) (\<lambda>_.
                  Sale_save saleId
                    (sale\<lparr>sale_status := enum_get SALE_STATUS ''VOIDED'',
                          sale_voidedBy := Some (ctx_userId c),
                          sale_voidReason := Some reasonText\<rparr>)) s))"

section \<open>Returns and exchanges (models/sale/returnModel.js, controllers/sale/returnController.js)\<close>

definition RETURN_TYPES :: "(string \<times> string) list" where
  "RETURN_TYPES = [(''REFUND'', ''REFUND''), (''EXCHANGE'', ''EXCHANGE'')]"

definition RETURN_STATUS :: "(string \<times> string) list" where
  "RETURN_STATUS = [(''PENDING'', ''PENDING''), (''COMPLETED'', ''COMPLETED''),
                    (''CANCELLED'', ''CANCELLED'')]"

record return_item_request =
  rir_saleItemId :: nat
  rir_quantity :: "int option"

record return_request =
  rr_originalSaleId :: "nat option"
  rr_items :: "return_item_request list option"
  rr_reason :: "string option"
  rr_refundMethod :: "string option"
  rr_notes :: "string option"

fun process_return_items ::
  "sale \<Rightarrow> return_item_request list \<Rightarrow> return_item list \<Rightarrow> rat
   \<Rightarrow> error + (return_item list \<times> rat)" where
  \<comment> \<open>the loop "Process return items" of \<open>createReturn\<close> and \<open>createExchange\<close>; the
      accumulators are \<open>processedItems\<close> and \<open>totalRefund\<close>\<close>
  "process_return_items originalSale [] processedItems totalRefund =
     Inr (processedItems, totalRefund)"
| "process_return_items originalSale (item # items) processedItems totalRefund =
     (case findById (sale_items originalSale) (rir_saleItemId item) of
        None \<Rightarrow> Inl (AppError 404 ''Sale item not found'')
      | Some saleItem \<Rightarrow>
          let returnQty = (case rir_quantity item of
                             None \<Rightarrow> si_quantity saleItem
                           | Some q \<Rightarrow> if q = 0 then si_quantity saleItem else q)
          in if returnQty > si_quantity saleItem
             then Inl (AppError 400 ''Cannot return more than purchased'')
             else
               let itemRefund = (si_unitPrice saleItem * of_int returnQty) - si_discount saleItem
               in process_return_items originalSale items
                    (processedItems @
                       [\<lparr>ri_product = si_product saleItem, ri_quantity = returnQty,
                         ri_unitPrice = si_unitPrice saleItem,
                         ri_refundAmount = round2 itemRefund\<rparr>])
                    (totalRefund + itemRefund))"

definition return_item_valid :: "return_item \<Rightarrow> bool" where
  "return_item_valid i = (1 \<le> ri_quantity i \<and> 0 \<le> ri_unitPrice i \<and> 0 \<le> ri_refundAmount i)"

definition return_valid :: "return_record \<Rightarrow> bool" where
  \<comment> \<open>the validators of \<open>returnSchema\<close>; \<open>originalSale\<close> and \<open>returnType\<close> are required\<close>
  "return_valid d =
     (case (ret_originalSale d, ret_returnType d) of
        (Some originalSale, Some returnType) \<Rightarrow>
          ret_returnNumber d \<noteq> []
          \<and> returnType \<in> set (Object_values RETURN_TYPES)
          \<and> ret_items d \<noteq> [] \<and> list_all return_item_valid (ret_items d)
          \<and> 0 \<le> ret_totalRefund d
          \<and> truthy (map_option trim (ret_reason d)) \<and> text_ok 500 (ret_reason d)
          \<and> enum_ok [''CASH'', ''CARD'', ''ORIGINAL_METHOD''] (ret_refundMethod d)
          \<and> enum_ok (Object_values RETURN_STATUS) (ret_status d)
          \<and> text_ok 500 (ret_notes d)
      | _ \<Rightarrow> False)"

definition Return_create :: "return_record \<Rightarrow> nat io" where
  \<comment> \<open>returns the id of the new document\<close>
  "Return_create d s =
     (if return_valid d
      then (Inr (length (returns s)),
            s\<lparr>returns := returns s @
              [d\<lparr>ret_reason := map_option trim (ret_reason d),
                 ret_notes := map_option trim (ret_notes d)\<rparr>]\<rparr>)
      else (Inl (ValidationError ''Return validation failed''), s))"

definition Warranty_void_returned :: "ctx \<Rightarrow> nat \<Rightarrow> nat \<Rightarrow> string \<Rightarrow> unit io" where
  \<comment> \<open>\<open>Warranty.updateMany({sale, product, status: ACTIVE}, {$set: {status: VOID, ...}})\<close>\<close>
  "Warranty_void_returned c originalSaleId productId voidReason s =
     (Inr (), s\<lparr>warranties :=
        map (\<lambda>w. if w_sale w = Some originalSaleId \<and> w_product w = productId
                     \<and> w_status w = enum_get WARRANTY_STATUS ''ACTIVE''
                  then w\<lparr>w_status := enum_get WARRANTY_STATUS ''VOID'',
                         w_voidedBy := Some (ctx_userId c),
                         w_voidReason := Some voidReason\<rparr>
                  else w) (warranties s)\<rparr>)"

definition restock_item ::
  "ctx \<Rightarrow> string \<Rightarrow> string \<Rightarrow> nat \<Rightarrow> nat \<Rightarrow> return_item \<Rightarrow> unit io" where
  \<comment> \<open>the body of the loop "Restore stock for returned items"\<close>
  "restock_item c reasonText voidReason originalSaleId returnId item =
     io_bind (Stock_getOrCreate (ri_product item)) (\<lambda>previousQuantity.
       let newQuantity = previousQuantity + ri_quantity item
       in io_bind (Stock_save (ri_product item) newQuantity) (\<lambda>_.
          io_bind (StockAdjustment_create
            \<lparr>adj_product = ri_product item,
             adj_type = enum_get ADJUSTMENT_TYPES ''RETURN'',
             adj_quantity = ri_quantity item,
             adj_previousQuantity = previousQuantity,
             adj_newQuantity = newQuantity,
             adj_reason = Some reasonText,
             adj_reference = DocRef returnId,
             adj_referenceType = Some ''Sale'',
             adj_createdBy = ctx_userId c\<rparr>) (\<lambda>_.
          Warranty_void_returned c originalSaleId (ri_product item) voidReason)))"

definition refund_return ::
  "ctx \<Rightarrow> return_request \<Rightarrow> nat \<Rightarrow> return_item list \<Rightarrow> rat \<Rightarrow> return_record" where
  \<comment> \<open>the document \<open>createReturn\<close> passes to \<open>Return.create\<close>\<close>
  "refund_return c body originalSaleId processedItems totalRefund =
     \<lparr>ret_returnNumber = ctx_returnNumber c,
      ret_originalSale = Some originalSaleId,
      ret_returnType = enum_get RETURN_TYPES ''REFUND'',
      ret_items = processedItems,
      ret_totalRefund = round2 totalRefund,
      ret_exchangeSale = None,
      ret_exchangeAmountDue = 0,
      ret_reason = rr_reason body,
      ret_refundMethod = (if truthy (rr_refundMethod body)
                          then rr_refundMethod body else Some ''CASH''),
      ret_status = enum_get RETURN_STATUS ''COMPLETED'',
      ret_notes = rr_notes body,
      ret_createdBy = ctx_userId c\<rparr>"

definition createReturn :: "ctx \<Rightarrow> return_request \<Rightarrow> nat io" where
  \<comment> \<open>returns the id of the return record\<close>
  "createReturn c body =
     (case (rr_originalSaleId body, rr_items body) of
        (Some originalSaleId, Some items) \<Rightarrow>
          if items = []
          then io_throw (AppError 400 ''Original sale ID and items to return are required'')
          else if \<not> truthy (rr_reason body)
          then io_throw (AppError 400 ''Return reason is required'')
          else (\<lambda>s.
            case findById (sales s) originalSaleId of
              None \<Rightarrow> (Inl (AppError 404 ''Original sale not found''), s)
            | Some originalSale \<Rightarrow>
                if sale_status originalSale = enum_get SALE_STATUS ''VOIDED''
                then (Inl (AppError 400 ''Cannot return items from a voided sale''), s)
                else
                  (case process_return_items originalSale items [] 0 of
                    Inl e \<Rightarrow> (Inl e, s)
                  | Inr (processedItems, totalRefund) \<Rightarrow>
                      io_bind (Return_create
                                 (refund_return c body originalSaleId processedItems totalRefund))
                        (\<lambda>returnId.
                      io_bind (forEach
                                 (restock_item c
                                    (''Return: '' @ ctx_returnNumber c @ '' - ''
                                       @ (case rr_reason body of None \<Rightarrow> [] | Some r \<Rightarrow> r))
                                    (''Product returned: '' @ ctx_returnNumber c)
                                    originalSaleId returnId)
                                 processedItems) (\<lambda>_.
                      io_return returnId)) s))
      | _ \<Rightarrow> io_throw (AppError 400 ''Original sale ID and items to return are required''))"

record exchange_request =
  er_originalSaleId :: "nat option"
  er_returnItems :: "return_item_request list option"
  er_newItems :: "sale_item_request list option"
  er_payments :: "payment_request list option"
  er_reason :: "string option"
  er_customer :: "customer option"
  er_notes :: "string option"

fun process_new_items ::
  "db \<Rightarrow> sale_item_request list \<Rightarrow> sale_item list \<Rightarrow> rat
   \<Rightarrow> error + (sale_item list \<times> rat)" where
  \<comment> \<open>the loop "Process new items" of \<open>createExchange\<close>; the accumulators are
      \<open>processedNewItems\<close> and \<open>newItemsTotal\<close>\<close>
  "process_new_items s [] processedNewItems newItemsTotal =
     Inr (processedNewItems, newItemsTotal)"
| "process_new_items s (item # items) processedNewItems newItemsTotal =
     (case products s (sir_productId item) of
        None \<Rightarrow> Inl (AppError 404 ''Product not found'')
      | Some product \<Rightarrow>
          if \<not> product_isActive product then Inl (AppError 400 ''Product is not available'')
          else
            let currentQty = qty s (sir_productId item)
            in if currentQty < sir_quantity item
               then Inl (AppError 400 ''Insufficient stock'')
               else
                 let unitPrice = num_or (sir_unitPrice item) (product_sellingPrice product);
                     quantity = sir_quantity item;
                     taxRate = product_taxRate product;
                     itemSubtotal = unitPrice * of_int quantity;
                     taxAmount = itemSubtotal * (taxRate / 100);
                     itemTotal = itemSubtotal + taxAmount
                 in process_new_items s items
                      (processedNewItems @
                         [\<lparr>si_product = sir_productId item, si_quantity = quantity,
                           si_unitPrice = unitPrice, si_discount = 0,
                           si_total = round2 itemTotal\<rparr>])
                      (newItemsTotal + itemTotal))"

definition exchange_sale ::
  "ctx \<Rightarrow> exchange_request \<Rightarrow> sale \<Rightarrow> sale_item list \<Rightarrow> rat \<Rightarrow> payment list \<Rightarrow> rat
   \<Rightarrow> rat \<Rightarrow> sale" where
  \<comment> \<open>the document \<open>createExchange\<close> passes to \<open>Sale.create\<close>\<close>
  "exchange_sale c body originalSale processedNewItems newItemsTotal processedPayments
     amountPaid changeGiven =
     \<lparr>sale_saleNumber = ctx_saleNumber c,
      sale_items = processedNewItems,
      sale_payments = processedPayments,
      sale_customer = (case er_customer body of
                         None \<Rightarrow> sale_customer originalSale
                       | Some cust \<Rightarrow> Some cust),
      sale_subtotal = round2 newItemsTotal,
      sale_discountType = None,
      sale_discountValue = 0,
      sale_discountTotal = 0,
      sale_grandTotal = round2 newItemsTotal,
      sale_amountPaid = amountPaid,
      sale_changeGiven = round2 changeGiven,
      sale_status = enum_get SALE_STATUS ''COMPLETED'',
      sale_notes = Some (''Exchange from Return: '' @ ctx_returnNumber c),
      sale_createdBy = ctx_userId c,
      sale_voidedBy = None,
      sale_voidReason = None\<rparr>"

definition exchange_return ::
  "ctx \<Rightarrow> exchange_request \<Rightarrow> nat \<Rightarrow> return_item list \<Rightarrow> rat \<Rightarrow> nat \<Rightarrow> rat
   \<Rightarrow> return_record" where
  \<comment> \<open>the document \<open>createExchange\<close> passes to \<open>Return.create\<close>\<close>
  "exchange_return c body originalSaleId processedReturnItems totalRefund newSaleId
     exchangeAmountDue =
     \<lparr>ret_returnNumber = ctx_returnNumber c,
      ret_originalSale = Some originalSaleId,
      ret_returnType = enum_get RETURN_TYPES ''EXCHANGE'',
      ret_items = processedReturnItems,
      ret_totalRefund = round2 totalRefund,
      ret_exchangeSale = Some newSaleId,
      ret_exchangeAmountDue = max 0 exchangeAmountDue,
      ret_reason = er_reason body,
      ret_refundMethod = (if exchangeAmountDue < 0 then Some ''CASH'' else None),
      ret_status = enum_get RETURN_STATUS ''COMPLETED'',
      ret_notes = er_notes body,
      ret_createdBy = ctx_userId c\<rparr>"

definition createExchange :: "ctx \<Rightarrow> exchange_request \<Rightarrow> (nat \<times> nat) io" where
  \<comment> \<open>returns the ids of the return record and of the new sale\<close>
  "createExchange c body =
     (case (er_originalSaleId body, er_returnItems body) of
        (Some originalSaleId, Some returnItems) \<Rightarrow>
          if returnItems = []
          then io_throw (AppError 400 ''Original sale ID and items to return are required'')
          else (case er_newItems body of
            None \<Rightarrow> io_throw (AppError 400 ''New items to purchase are required for exchange'')
          | Some newItems \<Rightarrow>
              if newItems = []
              then io_throw (AppError 400 ''New items to purchase are required for exchange'')
              else if \<not> truthy (er_reason body)
              then io_throw (AppError 400 ''Exchange reason is required'')
              else (\<lambda>s.
                case findById (sales s) originalSaleId of
                  None \<Rightarrow> (Inl (AppError 404 ''Original sale not found''), s)
                | Some originalSale \<Rightarrow>
                    if sale_status originalSale = enum_get SALE_STATUS ''VOIDED''
                    then (Inl (AppError 400 ''Cannot exchange items from a voided sale''), s)
                    else
                      (case process_return_items originalSale returnItems [] 0 of
                        Inl e \<Rightarrow> (Inl e, s)
                      | Inr (processedReturnItems, totalRefund) \<Rightarrow>
                      (case process_new_items s newItems [] 0 of
                        Inl e \<Rightarrow> (Inl e, s)
                      | Inr (processedNewItems, newItemsTotal) \<Rightarrow>
                          let exchangeAmountDue = round2 (newItemsTotal - totalRefund);
                              (processedPayments, amountPaid) =
                                (case er_payments body of
                                   None \<Rightarrow> ([], 0)
                                 | Some payments \<Rightarrow> process_payments payments [] 0)
                          in if exchangeAmountDue > 0 \<and> amountPaid < exchangeAmountDue
                             then (Inl (AppError 400 ''Insufficient payment''), s)
                             else
                               let changeGiven = max 0 (amountPaid - max 0 exchangeAmountDue)
                               in io_bind (Sale_create
                                    (exchange_sale c body originalSale processedNewItems
                                       newItemsTotal processedPayments amountPaid changeGiven))
                                    (\<lambda>newSaleId.
                                  io_bind (Return_create
                                    (exchange_return c body originalSaleId processedReturnItems
                                       totalRefund newSaleId exchangeAmountDue))
                                    (\<lambda>returnId.
                                  io_bind (forEach
                                             (restock_item c
                                                (''Exchange Return: '' @ ctx_returnNumber c)
                                                (''Product exchanged: '' @ ctx_returnNumber c)
                                                originalSaleId returnId)
                                             processedReturnItems) (\<lambda>_.
                                  io_bind (forEach
                                             (deduct_item c
                                                (''Exchange Sale: '' @ ctx_saleNumber c)
                                                newSaleId)
                                             processedNewItems) (\<lambda>_.
                                  io_return (returnId, newSaleId))))) s))))
      | _ \<Rightarrow> io_throw (AppError 400 ''Original sale ID and items to return are required''))"

section \<open>Repair jobs (models/repair/repairJobModel.js, controllers/repair/repairController.js)\<close>

definition REPAIR_STATUS :: "(string \<times> string) list" where
  "REPAIR_STATUS = [(''RECEIVED'', ''RECEIVED''), (''IN_PROGRESS'', ''IN_PROGRESS''),
                    (''READY'', ''READY''), (''COMPLETED'', ''COMPLETED''),
                    (''CANCELLED'', ''CANCELLED'')]"

definition PAYMENT_STATUS :: "(string \<times> string) list" where
  "PAYMENT_STATUS = [(''PENDING'', ''PENDING''), (''PARTIAL'', ''PARTIAL''), (''PAID'', ''PAID'')]"

definition repair_pre_save :: "repair_job \<Rightarrow> repair_job" where
  \<comment> \<open>\<open>repairJobSchema.pre("save")\<close>: the totals and the payment status are recomputed\<close>
  "repair_pre_save r =
     (let partsTotal = foldl (\<lambda>sum part. sum + pu_total part) 0 (rj_partsUsed r);
          totalCost = rj_laborCost r + partsTotal;
          totalPaid = rj_advancePayment r + rj_finalPayment r
      in r\<lparr>rj_partsTotal := partsTotal,
           rj_totalCost := totalCost,
           rj_paymentStatus :=
             (if totalPaid \<ge> totalCost \<and> totalCost > 0 then enum_get PAYMENT_STATUS ''PAID''
              else if totalPaid > 0 then enum_get PAYMENT_STATUS ''PARTIAL''
              else enum_get PAYMENT_STATUS ''PENDING'')\<rparr>)"

definition part_valid :: "part_used \<Rightarrow> bool" where
  "part_valid p = (1 \<le> pu_quantity p \<and> 0 \<le> pu_unitPrice p \<and> 0 \<le> pu_total p)"

definition repair_valid :: "repair_job \<Rightarrow> bool" where
  \<comment> \<open>the validators of \<open>repairJobSchema\<close>\<close>
  "repair_valid r =
     (rj_jobNumber r \<noteq> []
      \<and> enum_ok (Object_values REPAIR_STATUS) (rj_status r)
      \<and> trim (rj_problemDescription r) \<noteq> [] \<and> length (trim (rj_problemDescription r)) \<le> 1000
      \<and> text_ok 2000 (rj_diagnosisNotes r) \<and> text_ok 2000 (rj_repairNotes r)
      \<and> list_all part_valid (rj_partsUsed r)
      \<and> 0 \<le> rj_laborCost r \<and> 0 \<le> rj_partsTotal r \<and> 0 \<le> rj_totalCost r
      \<and> 0 \<le> rj_advancePayment r \<and> 0 \<le> rj_finalPayment r
      \<and> enum_ok (Object_values PAYMENT_STATUS) (rj_paymentStatus r)
      \<and> text_ok 500 (rj_cancelReason r))"

definition repair_trimmed :: "repair_job \<Rightarrow> repair_job" where
  "repair_trimmed r =
     r\<lparr>rj_problemDescription := trim (rj_problemDescription r),
       rj_diagnosisNotes := map_option trim (rj_diagnosisNotes r),
       rj_repairNotes := map_option trim (rj_repairNotes r),
       rj_cancelReason := map_option trim (rj_cancelReason r)\<rparr>"

definition RepairJob_create :: "repair_job \<Rightarrow> nat io" where
  \<comment> \<open>returns the id of the new document\<close>
  "RepairJob_create r s =
     (if repair_valid r
      then (Inr (length (repairs s)),
            s\<lparr>repairs := repairs s @ [repair_pre_save (repair_trimmed r)]\<rparr>)
      else (Inl (ValidationError ''RepairJob validation failed''), s))"

definition RepairJob_save :: "nat \<Rightarrow> repair_job \<Rightarrow> unit io" where
  "RepairJob_save repairId r s =
     (if repair_valid r
      then (Inr (), s\<lparr>repairs := (repairs s)[repairId := repair_pre_save (repair_trimmed r)]\<rparr>)
      else (Inl (ValidationError ''RepairJob validation failed''), s))"

record part_request =
  ptr_productId :: nat
  ptr_quantity :: int
  ptr_unitPrice :: "rat option"

record complete_request =
  cr_laborCost :: "rat option"
  cr_partsUsed :: "part_request list option"
  cr_diagnosisNotes :: "string option"
  cr_repairNotes :: "string option"

fun process_parts ::
  "ctx \<Rightarrow> repair_job \<Rightarrow> nat \<Rightarrow> part_request list \<Rightarrow> part_used list \<Rightarrow> part_used list io" where
  \<comment> \<open>the loop "Process parts used" of \<open>completeRepair\<close>; the accumulator is
      \<open>processedParts\<close>. The stock record is the one \<open>Stock.findOne\<close> returned, which is
      \<open>null\<close> for a product without a record.\<close>
  "process_parts c repair repairId [] processedParts = io_return processedParts"
| "process_parts c repair repairId (part # parts) processedParts =
     (\<lambda>s. case products s (ptr_productId part) of
        None \<Rightarrow> (Inl (AppError 404 ''Product not found''), s)
      | Some product \<Rightarrow>
          let stock = stocks s (ptr_productId part);
              currentQty = qty s (ptr_productId part)
          in if currentQty < ptr_quantity part
             then (Inl (AppError 400 ''Insufficient stock''), s)
             else
               let unitPrice = num_or (ptr_unitPrice part) (product_sellingPrice product);
                   processedParts' = processedParts @
                     [\<lparr>pu_product = ptr_productId part, pu_quantity = ptr_quantity part,
                       pu_unitPrice = unitPrice,
                       pu_total = unitPrice * of_int (ptr_quantity part)\<rparr>]
               in (case stock of
                     None \<Rightarrow> (Inl (TypeError ''Cannot read properties of null''), s)
                   | Some previousQuantity \<Rightarrow>
                       io_bind (Stock_save (ptr_productId part)
                                  (previousQuantity - ptr_quantity part)) (\<lambda>_.
                       io_bind (StockAdjustment_create
                         \<lparr>adj_product = ptr_productId part,
                          adj_type = enum_get ADJUSTMENT_TYPES ''SALE'',
                          adj_quantity = ptr_quantity part,
                          adj_previousQuantity = previousQuantity,
                          adj_newQuantity = previousQuantity - ptr_quantity part,
                          adj_reason = Some (''Repair: '' @ rj_jobNumber repair),
                          adj_reference = DocRef repairId,
                          adj_referenceType = Some ''Sale'',
                          adj_createdBy = ctx_userId c\<rparr>) (\<lambda>_.
                       process_parts c repair repairId parts processedParts')) s))"

definition completeRepair :: "ctx \<Rightarrow> nat \<Rightarrow> complete_request \<Rightarrow> unit io" where
  "completeRepair c repairId body =
     (\<lambda>s. case findById (repairs s) repairId of
        None \<Rightarrow> (Inl (AppError 404 ''Repair job not found''), s)
      | Some repair \<Rightarrow>
          if rj_assignedTo repair \<noteq> Some (ctx_userId c)
          then (Inl (AppError 403 ''You are not assigned to this repair job''), s)
          else if rj_status repair \<noteq> enum_get REPAIR_STATUS ''IN_PROGRESS''
                  \<and> rj_status repair \<noteq> enum_get REPAIR_STATUS ''RECEIVED''
          then (Inl (AppError 400 ''Cannot complete repair with status''), s)
          else
            io_bind (case cr_partsUsed body of
                       None \<Rightarrow> io_return []
                     | Some partsUsed \<Rightarrow> process_parts c repair repairId partsUsed [])
              (\<lambda>processedParts.
                 RepairJob_save repairId
                   (repair\<lparr>rj_laborCost := num_or (cr_laborCost body) 0,
                           rj_partsUsed := processedParts,
                           rj_diagnosisNotes := (if truthy (cr_diagnosisNotes body)
                                                 then cr_diagnosisNotes body
                                                 else rj_diagnosisNotes repair),
                           rj_repairNotes := (if truthy (cr_repairNotes body)
                                              then cr_repairNotes body
                                              else rj_repairNotes repair),
                           rj_status := enum_get REPAIR_STATUS ''READY'',
                           rj_completedBy := Some (ctx_userId c)\<rparr>)) s)"

definition restore_part :: "ctx \<Rightarrow> string \<Rightarrow> nat \<Rightarrow> part_used \<Rightarrow> unit io" where
  \<comment> \<open>the body of the loop "Restore inventory for any parts used" of \<open>cancelRepair\<close>\<close>
  "restore_part c jobNumber repairId part =
     io_bind (Stock_getOrCreate (pu_product part)) (\<lambda>previousQuantity.
       io_bind (Stock_save (pu_product part) (previousQuantity + pu_quantity part)) (\<lambda>_.
         StockAdjustment_create
           \<lparr>adj_product = pu_product part,
            adj_type = enum_get ADJUSTMENT_TYPES ''RETURN'',
            adj_quantity = pu_quantity part,
            adj_previousQuantity = previousQuantity,
            adj_newQuantity = previousQuantity + pu_quantity part,
            adj_reason = Some (''Cancel Repair: '' @ jobNumber),
            adj_reference = DocRef repairId,
            adj_referenceType = Some ''Manual'',
            adj_createdBy = ctx_userId c\<rparr>))"

definition cancelRepair :: "ctx \<Rightarrow> nat \<Rightarrow> string option \<Rightarrow> unit io" where
  "cancelRepair c repairId reason =
     (if \<not> truthy reason then io_throw (AppError 400 ''Cancel reason is required'')
      else (\<lambda>s.
        case findById (repairs s) repairId of
          None \<Rightarrow> (Inl (AppError 404 ''Repair job not found''), s)
        | Some repair \<Rightarrow>
            if rj_status repair = enum_get REPAIR_STATUS ''COMPLETED''
            then (Inl (AppError 400 ''Cannot cancel completed repair''), s)
            else
              io_bind (forEach (restore_part c (rj_jobNumber repair) repairId)
                         (rj_partsUsed repair)) (\<lambda>_.
              RepairJob_save repairId
                (repair\<lparr>rj_status := enum_get REPAIR_STATUS ''CANCELLED'',
                        rj_cancelledBy := Some (ctx_userId c),
                        rj_cancelReason := reason\<rparr>)) s))"

section \<open>Warranty claims (models/warranty/warrantyModel.js, controllers/warranty/warrantyController.js)\<close>

definition checkValidity :: "int \<Rightarrow> warranty \<Rightarrow> bool" where
  \<comment> \<open>the field \<open>valid\<close> of \<open>warranty.checkValidity()\<close>\<close>
  "checkValidity now w =
     (if w_status w = enum_get WARRANTY_STATUS ''VOID'' then False
      else if now > w_endDate w then False
      else True)"

definition Warranty_save :: "int \<Rightarrow> nat \<Rightarrow> warranty \<Rightarrow> unit io" where
  \<comment> \<open>\<open>warranty.save()\<close>: the document is validated, then the pre-save hook runs\<close>
  "Warranty_save now warrantyId w s =
     (if warranty_valid w
      then (Inr (), s\<lparr>warranties := (warranties s)
              [warrantyId := warranty_pre_save now
                 (w\<lparr>w_claims := map (\<lambda>cl. cl\<lparr>cl_issue := trim (cl_issue cl),
                                              cl_notes := map_option trim (cl_notes cl)\<rparr>)
                                   (w_claims w),
                    w_voidReason := map_option trim (w_voidReason w)\<rparr>)]\<rparr>)
      else (Inl (ValidationError ''Warranty validation failed''), s))"

record claim_request =
  clr_issue :: "string option"
  clr_resolution :: "string option"
  clr_repairJobId :: "nat option"
  clr_replacementProductId :: "nat option"
  clr_notes :: "string option"

definition claim_repair :: "ctx \<Rightarrow> warranty \<Rightarrow> claim_request \<Rightarrow> string \<Rightarrow> claim \<Rightarrow> claim io" where
  \<comment> \<open>the branch \<open>resolution === CLAIM_RESOLUTIONS.REPAIR\<close>\<close>
  "claim_repair c w body issue cl =
     (case clr_repairJobId body of
        Some repairJobId \<Rightarrow>
          (\<lambda>s. case findById (repairs s) repairJobId of
             None \<Rightarrow> (Inl (AppError 404 ''Repair job not found''), s)
           | Some existingRepair \<Rightarrow> (Inr (cl\<lparr>cl_repairJob := Some repairJobId\<rparr>), s))
      | None \<Rightarrow>
          io_bind (RepairJob_create
            \<lparr>rj_jobNumber = ctx_jobNumber c,
             rj_status = enum_get REPAIR_STATUS ''RECEIVED'',
             rj_problemDescription = ''Warranty Claim: '' @ issue,
             rj_diagnosisNotes = Some (''Warranty Claim: '' @ ctx_claimNumber c
                                        @ [CHR 0x0A] @ ''Original Warranty: ''
                                        @ w_warrantyNumber w),
             rj_repairNotes = None,
             rj_assignedTo = None,
             rj_partsUsed = [],
             rj_laborCost = 0,
             rj_partsTotal = 0,
             rj_totalCost = 0,
             rj_advancePayment = 0,
             rj_finalPayment = 0,
             rj_paymentStatus = enum_get PAYMENT_STATUS ''PENDING'',
             rj_completedBy = None,
             rj_cancelledBy = None,
             rj_cancelReason = None\<rparr>) (\<lambda>repairJobId.
          io_return (cl\<lparr>cl_repairJob := Some repairJobId\<rparr>)))"

definition claim_replace ::
  "ctx \<Rightarrow> nat \<Rightarrow> warranty \<Rightarrow> claim_request \<Rightarrow> claim \<Rightarrow> claim io" where
  \<comment> \<open>the branch \<open>resolution === CLAIM_RESOLUTIONS.REPLACE\<close>\<close>
  "claim_replace c warrantyId w body cl =
     (\<lambda>s. let replaceId = (case clr_replacementProductId body of
                              Some replacementProductId \<Rightarrow> replacementProductId
                            | None \<Rightarrow> w_product w)
           in case products s replaceId of
                None \<Rightarrow> (Inl (AppError 404 ''Replacement product not found''), s)
              | Some productToReplace \<Rightarrow>
                  io_bind (Stock_getOrCreate replaceId) (\<lambda>quantity.
                    if quantity < 1
                    then io_throw (AppError 400 ''Insufficient stock for replacement'')
                    else
                      let previousQuantity = quantity
                      in io_bind (Stock_save replaceId (quantity - 1)) (\<lambda>_.
                         io_bind (StockAdjustment_create
                           \<lparr>adj_product = replaceId,
                            adj_type = enum_get ADJUSTMENT_TYPES ''WARRANTY_REPLACE'',
                            adj_quantity = 1,
                            adj_previousQuantity = previousQuantity,
                            adj_newQuantity = quantity - 1,
                            adj_reason = Some (''Warranty Replacement: '' @ ctx_claimNumber c
                                               @ '' - '' @ w_warrantyNumber w),
                            adj_reference = DocRef warrantyId,
                            adj_referenceType = Some ''Manual'',
                            adj_createdBy = ctx_userId c\<rparr>) (\<lambda>_.
                         io_return (cl\<lparr>cl_claimCost := product_costPrice productToReplace,
                                       cl_replacementProduct := Some replaceId\<rparr>)))) s)"

definition claim_refund ::
  "ctx \<Rightarrow> nat \<Rightarrow> warranty \<Rightarrow> string \<Rightarrow> claim \<Rightarrow> (claim \<times> warranty) io" where
  \<comment> \<open>the branch \<open>resolution === CLAIM_RESOLUTIONS.REFUND\<close>; \<open>warranty.product\<close> and
      \<open>warranty.sale\<close> are populated, so a dangling reference reads as \<open>null\<close>\<close>
  "claim_refund c warrantyId w issue cl =
     (\<lambda>s. case products s (w_product w) of
        None \<Rightarrow> (Inl (TypeError ''Cannot read properties of null''), s)
      | Some product \<Rightarrow>
          let populatedSale = (case w_sale w of
                                 None \<Rightarrow> None
                               | Some saleId \<Rightarrow>
                                   (case findById (sales s) saleId of
                                      None \<Rightarrow> None
                                    | Some originalSale \<Rightarrow> Some (saleId, originalSale)));
              refundAmount =
                (case populatedSale of
                   Some (saleId, originalSale) \<Rightarrow>
                     (case List.find (\<lambda>item. si_product item = w_product w)
                             (sale_items originalSale) of
                        Some saleItem \<Rightarrow> si_total saleItem
                      | None \<Rightarrow> product_sellingPrice product)
                 | None \<Rightarrow> product_sellingPrice product);
              returnNumber = ctx_returnNumber c;
              claimNumber = ctx_claimNumber c
          in io_bind (Return_create
               \<lparr>ret_returnNumber = returnNumber,
                ret_originalSale = map_option fst populatedSale,
                ret_returnType = enum_get RETURN_TYPES ''WARRANTY_REFUND'',
                ret_items = [\<lparr>ri_product = w_product w, ri_quantity = 1,
                               ri_unitPrice = refundAmount,
                               ri_refundAmount = refundAmount\<rparr>],
                ret_totalRefund = refundAmount,
                ret_exchangeSale = None,
                ret_exchangeAmountDue = 0,
                ret_reason = Some (''Warranty Refund: '' @ claimNumber @ '' - '' @ issue),
                ret_refundMethod = Some ''CASH'',
                ret_status = enum_get RETURN_STATUS ''COMPLETED'',
                ret_notes = Some (''Warranty Claim Refund'' @ [CHR 0x0A] @ ''Warranty: ''
                                  @ w_warrantyNumber w @ [CHR 0x0A] @ ''Claim: ''
                                  @ claimNumber),
                ret_createdBy = ctx_userId c\<rparr>) (\<lambda>returnId.
             io_return
               (cl\<lparr>cl_returnRecord := Some returnId,
                   cl_refundAmount := refundAmount,
                   cl_claimCost := refundAmount\<rparr>,
                w\<lparr>w_status := enum_get WARRANTY_STATUS ''VOID'',
                  w_voidedBy := Some (ctx_userId c),
                  w_voidReason := Some (''Refunded via claim: '' @ claimNumber)\<rparr>)) s)"

definition createClaim :: "ctx \<Rightarrow> nat \<Rightarrow> claim_request \<Rightarrow> claim io" where
  \<comment> \<open>returns the new claim\<close>
  "createClaim c warrantyId body =
     (case clr_issue body of
        None \<Rightarrow> io_throw (AppError 400 ''Issue description is required'')
      | Some issue \<Rightarrow>
          if issue = [] then io_throw (AppError 400 ''Issue description is required'')
          else (\<lambda>s.
            case findById (warranties s) warrantyId of
              None \<Rightarrow> (Inl (AppError 404 ''Warranty not found''), s)
            | Some warranty \<Rightarrow>
                if \<not> checkValidity (ctx_now c) warranty
                then (Inl (AppError 400 ''Cannot create claim''), s)
                else
                  let resolution = clr_resolution body;
                      claim0 = \<lparr>cl_claimNumber = ctx_claimNumber c,
                                cl_issue = issue,
                                cl_resolution = str_or_null resolution,
                                cl_repairJob = None,
                                cl_replacementProduct = None,
                                cl_returnRecord = None,
                                cl_refundAmount = 0,
                                cl_claimCost = 0,
                                cl_notes = str_or_null (clr_notes body),
                                cl_processedBy = ctx_userId c\<rparr>
                  in io_bind
                       (if resolution = enum_get CLAIM_RESOLUTIONS ''REPAIR''
                        then io_bind (claim_repair c warranty body issue claim0)
                               (\<lambda>cl. io_return (cl, warranty))
                        else if resolution = enum_get CLAIM_RESOLUTIONS ''REPLACE''
                        then io_bind (claim_replace c warrantyId warranty body claim0)
                               (\<lambda>cl. io_return (cl, warranty))
                        else if resolution = enum_get CLAIM_RESOLUTIONS ''REFUND''
                        then claim_refund c warrantyId warranty issue claim0
                        else io_return (claim0, warranty))
                       (\<lambda>(cl, w).
                          let w1 = w\<lparr>w_claims := w_claims w @ [cl]\<rparr>;
                              w2 = (if w_status w1 = enum_get WARRANTY_STATUS ''ACTIVE''
                                    then w1\<lparr>w_status := enum_get WARRANTY_STATUS ''CLAIMED''\<rparr>
                                    else w1)
                          in io_bind (Warranty_save (ctx_now c) warrantyId w2) (\<lambda>_.
                             io_return cl)) s))"

section \<open>Notions used by the properties\<close>

definition stock_nonneg :: "db \<Rightarrow> bool" where
  \<comment> \<open>the ledger invariant: no product has a negative quantity\<close>
  "stock_nonneg s = (\<forall>p. 0 \<le> qty s p)"

datatype operation =
    AdjustStock ctx adjust_request
  | CreateSale ctx sale_request
  | VoidSale ctx nat "string option"
  | CreateReturn ctx return_request
  | CreateExchange ctx exchange_request
  | CompleteRepair ctx nat complete_request
  | CancelRepair ctx nat "string option"
  | CreateClaim ctx nat claim_request

fun exec :: "operation \<Rightarrow> db \<Rightarrow> db" where
  \<comment> \<open>the database a request leaves behind, whether the handler answered or failed\<close>
  "exec (AdjustStock c body) s = snd (adjustStock c body s)"
| "exec (CreateSale c body) s = snd (createSale c body s)"
| "exec (VoidSale c saleId reason) s = snd (voidSale c saleId reason s)"
| "exec (CreateReturn c body) s = snd (createReturn c body s)"
| "exec (CreateExchange c body) s = snd (createExchange c body s)"
| "exec (CompleteRepair c repairId body) s = snd (completeRepair c repairId body s)"
| "exec (CancelRepair c repairId reason) s = snd (cancelRepair c repairId reason s)"
| "exec (CreateClaim c warrantyId body) s = snd (createClaim c warrantyId body s)"

definition run_ops :: "operation list \<Rightarrow> db \<Rightarrow> db" where
  "run_ops ops s = foldl (\<lambda>s' op. exec op s') s ops"

definition keeps :: "'a io \<Rightarrow> bool" where
  \<comment> \<open>a computation preserves the ledger invariant, also when it fails\<close>
  "keeps m = (\<forall>s. stock_nonneg s \<longrightarrow> stock_nonneg (snd (m s)))"

definition unchanged :: "(db \<Rightarrow> 'b) \<Rightarrow> 'a io \<Rightarrow> bool" where
  \<comment> \<open>a computation never writes the part \<open>g\<close> of the database\<close>
  "unchanged g m = (\<forall>s. g (snd (m s)) = g s)"

definition increase_types :: "string list" where
  "increase_types = [''ADDITION'', ''PURCHASE'', ''RETURN'', ''TRANSFER_IN'', ''CORRECTION'']"

definition decrease_types :: "string list" where
  "decrease_types = [''REDUCTION'', ''SALE'', ''DAMAGE'', ''THEFT'', ''TRANSFER_OUT'']"

definition adjust_body_ok :: "adjust_request \<Rightarrow> bool" where
  \<comment> \<open>the free-text fields of an adjustment request pass the schema of the adjustment\<close>
  "adjust_body_ok body =
     (text_ok 500 (ar_reason body)
      \<and> enum_ok [''Sale'', ''Purchase'', ''Transfer'', ''Manual''] (str_or_null (ar_referenceType body)))"


definition used :: "part_used list \<Rightarrow> nat \<Rightarrow> int" where
  \<comment> \<open>the units of a product among the parts of a repair job\<close>
  "used parts p = sum_list (map (\<lambda>i. if pu_product i = p then pu_quantity i else 0) parts)"






definition adjustment_of ::
  "ctx \<Rightarrow> adjust_request \<Rightarrow> nat \<Rightarrow> string \<Rightarrow> int \<Rightarrow> int \<Rightarrow> int \<Rightarrow> stock_adjustment" where
  \<comment> \<open>the document \<open>adjustStock\<close> passes to \<open>StockAdjustment.create\<close>\<close>
  "adjustment_of c body pid t q previousQuantity newQuantity =
     \<lparr>adj_product = pid, adj_type = Some t, adj_quantity = q,
      adj_previousQuantity = previousQuantity, adj_newQuantity = newQuantity,
      adj_reason = ar_reason body,
      adj_reference = (case ar_reference body of None \<Rightarrow> NoRef | Some r \<Rightarrow> TextRef r),
      adj_referenceType = (if truthy (ar_referenceType body)
                           then ar_referenceType body else Some ''Manual''),
      adj_createdBy = ctx_userId c\<rparr>"


definition return_adjustment :: "part_used \<Rightarrow> nat \<times> string option \<times> int" where
  \<comment> \<open>product, type and quantity of the adjustment that restores a part\<close>
  "return_adjustment part = (pu_product part, Some ''RETURN'', pu_quantity part)"

definition adjustment_summary :: "stock_adjustment \<Rightarrow> nat \<times> string option \<times> int" where
  "adjustment_summary a = (adj_product a, adj_type a, adj_quantity a)"

subsection \<open>A small shop\<close>

definition c0 :: ctx where
  "c0 = \<lparr>ctx_userId = 7, ctx_now = 100,
          ctx_saleNumber = ''SL-20250101-0001'', ctx_returnNumber = ''RT-20250101-0001'',
          ctx_jobNumber = ''RJ-20250101-0001'', ctx_claimNumber = ''CLM-20250101-0001'',
          ctx_warrantyNumber = (\<lambda>n. ''WR-20250101-0001''),
          ctx_addMonths = (\<lambda>d m. d + 30 * m)\<rparr>"

definition phone :: product where
  \<comment> \<open>costs 100, sells at 150, 10 per cent tax\<close>
  "phone = \<lparr>product_isActive = True, product_sellingPrice = 150, product_costPrice = 100,
            product_taxRate = 10, product_warrantyDuration = 0,
            product_warrantyType = Some ''NONE''\<rparr>"

definition cable :: product where
  "cable = \<lparr>product_isActive = True, product_sellingPrice = 20, product_costPrice = 5,
            product_taxRate = 0, product_warrantyDuration = 0,
            product_warrantyType = Some ''NONE''\<rparr>"

definition shop :: db where
  \<comment> \<open>product 1 is the phone with 5 in stock, product 2 the cable with 10\<close>
  "shop = \<lparr>products = [1 \<mapsto> phone, 2 \<mapsto> cable], stocks = [1 \<mapsto> 5, 2 \<mapsto> 10],
           adjustments = [], sales = [], returns = [], repairs = [], warranties = []\<rparr>"

definition adjust_body :: "string \<Rightarrow> int \<Rightarrow> adjust_request" where
  "adjust_body t q = \<lparr>ar_productId = Some 1, ar_type = Some t, ar_quantity = Some q,
                       ar_reason = Some ''stock take'', ar_reference = None,
                       ar_referenceType = None\<rparr>"

definition line :: "nat \<Rightarrow> int \<Rightarrow> sale_item_request" where
  "line p q = \<lparr>sir_productId = p, sir_quantity = q, sir_unitPrice = None,
                sir_discount = None\<rparr>"

definition sale_body :: "sale_item_request list \<Rightarrow> sale_request" where
  "sale_body items = \<lparr>sr_items = Some items, sr_payments = None, sr_discountType = None,
                       sr_discountValue = None, sr_customer = None, sr_notes = None\<rparr>"

definition sold_two :: db where
  \<comment> \<open>the shop after a sale of two phones\<close>
  "sold_two = snd (createSale c0 (sale_body [line 1 2]) shop)"






definition cancelled_job :: repair_job where
  \<comment> \<open>a job cancelled by user 3 after two cables had been consumed\<close>
  "cancelled_job =
     \<lparr>rj_jobNumber = ''RJ-20250101-0001'', rj_status = Some ''CANCELLED'',
      rj_problemDescription = ''broken screen'', rj_diagnosisNotes = None,
      rj_repairNotes = None, rj_assignedTo = Some 7,
      rj_partsUsed = [\<lparr>pu_product = 2, pu_quantity = 2, pu_unitPrice = 20, pu_total = 40\<rparr>],
      rj_laborCost = 50, rj_partsTotal = 40, rj_totalCost = 90, rj_advancePayment = 0,
      rj_finalPayment = 0, rj_paymentStatus = Some ''PENDING'', rj_completedBy = Some 7,
      rj_cancelledBy = Some 3, rj_cancelReason = Some ''customer left''\<rparr>"

definition workshop :: db where
  "workshop = shop\<lparr>repairs := [cancelled_job]\<rparr>"

definition phone_warranty :: warranty where
  "phone_warranty =
     \<lparr>w_warrantyNumber = ''WR-20250101-0001'', w_sourceType = ''SALE'', w_sale = Some 0,
      w_product = 1,
      w_customer = \<lparr>cust_name = Some ''Nimal'', cust_phone = Some ''0771234567'',
                     cust_email = None\<rparr>,
      w_warrantyType = Some ''SHOP'', w_durationMonths = 12, w_startDate = 100,
      w_endDate = 460, w_status = Some ''ACTIVE'', w_claims = [], w_voidedBy = None,
      w_voidReason = None, w_createdBy = 7\<rparr>"

definition warranted :: db where
  \<comment> \<open>the shop after the sale of two phones, with a warranty on one of them\<close>
  "warranted = sold_two\<lparr>warranties := [phone_warranty]\<rparr>"

definition claim_body :: "string \<Rightarrow> claim_request" where
  "claim_body resolution =
     \<lparr>clr_issue = Some ''does not charge'', clr_resolution = Some resolution,
      clr_repairJobId = None, clr_replacementProductId = None, clr_notes = None\<rparr>"

section \<open>Properties of the authorization middleware\<close>





section \<open>The ledger invariant\<close>

lemma keepsD: "keeps m \<Longrightarrow> stock_nonneg s \<Longrightarrow> stock_nonneg (snd (m s))"
  by (simp add: keeps_def)

lemma keepsI: "(\<And>s. stock_nonneg s \<Longrightarrow> stock_nonneg (snd (m s))) \<Longrightarrow> keeps m"
  by (simp add: keeps_def)

lemma keeps_return: "keeps (io_return x)"
  by (simp add: keeps_def io_return_def)

lemma keeps_throw: "keeps (io_throw e)"
  by (simp add: keeps_def io_throw_def)

lemma keeps_bind: "keeps m \<Longrightarrow> (\<And>x. keeps (f x)) \<Longrightarrow> keeps (io_bind m f)"
  unfolding keeps_def io_bind_def
proof (intro allI impI)
  fix s assume a: "\<forall>s. stock_nonneg s \<longrightarrow> stock_nonneg (snd (m s))"
    "\<And>x. \<forall>s. stock_nonneg s \<longrightarrow> stock_nonneg (snd (f x s))" "stock_nonneg s"
  obtain r s1 where ms: "m s = (r, s1)" by (cases "m s")
  with a have "stock_nonneg s1" by (metis snd_conv)
  then show "stock_nonneg (snd (case m s of (Inl e, s') \<Rightarrow> (Inl e, s') | (Inr x, s') \<Rightarrow> f x s'))"
    using a(2) ms by (cases r) auto
qed

lemma keeps_forEach: "(\<And>x. keeps (body x)) \<Longrightarrow> keeps (forEach body xs)"
  by (induction xs) (auto intro: keeps_return keeps_bind)

lemma keeps_bindD:
  "stock_nonneg s \<Longrightarrow> keeps m \<Longrightarrow> (\<And>x. keeps (f x)) \<Longrightarrow> stock_nonneg (snd (io_bind m f s))"
  using keeps_bind keepsD by blast

lemma keeps_getOrCreate: "keeps (Stock_getOrCreate p)"
  by (auto simp: keeps_def Stock_getOrCreate_def stock_nonneg_def qty_def split: option.splits)

lemma keeps_Stock_save: "keeps (Stock_save p q)"
  by (auto simp: keeps_def Stock_save_def stock_nonneg_def qty_def split: option.splits)

lemma keeps_adjustment: "keeps (StockAdjustment_create a)"
  by (auto simp: keeps_def StockAdjustment_create_def stock_nonneg_def qty_def)

lemma keeps_if: "keeps m \<Longrightarrow> keeps n \<Longrightarrow> keeps (if b then m else n)"
  by simp

lemma keeps_Let: "keeps (f x) \<Longrightarrow> keeps (Let x f)"
  by simp

lemma keeps_option:
  "keeps m \<Longrightarrow> (\<And>x. keeps (f x)) \<Longrightarrow> keeps (case v of None \<Rightarrow> m | Some x \<Rightarrow> f x)"
  by (cases v) simp_all

lemma keeps_frame: "(\<And>s. stocks (snd (m s)) = stocks s) \<Longrightarrow> keeps m"
  by (simp add: keeps_def stock_nonneg_def qty_def)

lemma keeps_Sale_create: "keeps (Sale_create d)"
  by (rule keeps_frame) (simp add: Sale_create_def)

lemma keeps_Sale_save: "keeps (Sale_save i d)"
  by (rule keeps_frame) (simp add: Sale_save_def)

lemma keeps_Return_create: "keeps (Return_create d)"
  by (rule keeps_frame) (simp add: Return_create_def)

lemma keeps_Warranty_create: "keeps (Warranty_create n d)"
  by (rule keeps_frame) (simp add: Warranty_create_def)

lemma keeps_Warranty_save: "keeps (Warranty_save n i d)"
  by (rule keeps_frame) (simp add: Warranty_save_def)

lemma keeps_Warranty_void_returned: "keeps (Warranty_void_returned c i p r)"
  by (rule keeps_frame) (simp add: Warranty_void_returned_def)

lemma keeps_RepairJob_create: "keeps (RepairJob_create d)"
  by (rule keeps_frame) (simp add: RepairJob_create_def)

lemma keeps_RepairJob_save: "keeps (RepairJob_save i d)"
  by (rule keeps_frame) (simp add: RepairJob_save_def)

lemmas keeps_intros = keeps_return keeps_throw keeps_bind keeps_forEach keeps_getOrCreate
  keeps_Stock_save keeps_adjustment keeps_if keeps_Let keeps_option keeps_Sale_create keeps_Sale_save
  keeps_Return_create keeps_Warranty_create keeps_Warranty_save keeps_Warranty_void_returned
  keeps_RepairJob_create keeps_RepairJob_save

lemma keeps_adjustStock: "keeps (adjustStock c body)"
proof (rule keepsI)
  fix s assume I: "stock_nonneg s"
  show "stock_nonneg (snd (adjustStock c body s))"
    unfolding adjustStock_def
    by (simp add: Let_def io_throw_def I split: option.splits)
       (intro conjI impI allI keeps_bindD I keeps_intros)
qed

lemma keeps_deduct_item: "keeps (deduct_item c what i item)"
  unfolding deduct_item_def Let_def by (intro keeps_intros)

lemma keeps_restore_item: "keeps (restore_item c what i item)"
  unfolding restore_item_def Let_def by (intro keeps_intros)

lemma keeps_restock_item: "keeps (restock_item c what v i j item)"
  unfolding restock_item_def Let_def by (intro keeps_intros)

lemma keeps_restore_part: "keeps (restore_part c what i part)"
  unfolding restore_part_def by (intro keeps_intros)

lemma keeps_create_item_warranties: "keeps (create_item_warranties c i cust item)"
proof (rule keepsI)
  fix s assume I: "stock_nonneg s"
  have "keeps (forEach (\<lambda>i s'. io_bind (Warranty_create (ctx_now c) (w s')) (\<lambda>_. io_return ()) s') xs)"
    for w and xs :: "nat list"
    by (intro keeps_forEach keepsI keeps_bindD keeps_intros) 
  then show "stock_nonneg (snd (create_item_warranties c i cust item s))"
    unfolding create_item_warranties_def
    by (auto simp: I split: option.splits intro!: keepsD)
qed

lemma keeps_createSale: "keeps (createSale c body)"
proof (rule keepsI)
  fix s assume I: "stock_nonneg s"
  show "stock_nonneg (snd (createSale c body s))"
    unfolding createSale_def
    by (simp add: Let_def io_throw_def I split: option.splits sum.splits prod.splits)
       (intro conjI impI allI keeps_bindD I keeps_intros keeps_deduct_item
          keeps_create_item_warranties)
qed

lemma keeps_voidSale: "keeps (voidSale c i reason)"
proof (rule keepsI)
  fix s assume I: "stock_nonneg s"
  show "stock_nonneg (snd (voidSale c i reason s))"
    unfolding voidSale_def
    by (simp add: Let_def io_throw_def I split: option.splits sum.splits prod.splits)
       (intro conjI impI allI keeps_bindD I keeps_intros keeps_restore_item)
qed

lemma keeps_createReturn: "keeps (createReturn c body)"
proof (rule keepsI)
  fix s assume I: "stock_nonneg s"
  show "stock_nonneg (snd (createReturn c body s))"
    unfolding createReturn_def
    by (simp add: Let_def io_throw_def I split: option.splits sum.splits prod.splits)
       (intro conjI impI allI keeps_bindD I keeps_intros keeps_restock_item)
qed

lemma keeps_createExchange: "keeps (createExchange c body)"
proof (rule keepsI)
  fix s assume I: "stock_nonneg s"
  show "stock_nonneg (snd (createExchange c body s))"
    unfolding createExchange_def
    by (simp add: Let_def io_throw_def I split: option.splits sum.splits prod.splits)
       (intro conjI impI allI keeps_bindD I keeps_intros keeps_restock_item keeps_deduct_item)
qed

lemma keeps_process_parts: "keeps (process_parts c r i parts acc)"
proof (induction parts arbitrary: acc)
  case Nil
  show ?case by (simp add: keeps_return)
next
  case (Cons part parts)
  show ?case
  proof (rule keepsI)
    fix s assume I: "stock_nonneg s"
    show "stock_nonneg (snd (process_parts c r i (part # parts) acc s))"
      by (simp add: Let_def I split: option.splits)
         (intro conjI impI allI keeps_bindD I keeps_intros Cons.IH)
  qed
qed

lemma keeps_completeRepair: "keeps (completeRepair c i body)"
proof (rule keepsI)
  fix s assume I: "stock_nonneg s"
  show "stock_nonneg (snd (completeRepair c i body s))"
    unfolding completeRepair_def
    by (simp add: Let_def io_throw_def I split: option.splits)
       (intro conjI impI allI keeps_bindD I keeps_intros keeps_process_parts)
qed

lemma keeps_cancelRepair: "keeps (cancelRepair c i reason)"
proof (rule keepsI)
  fix s assume I: "stock_nonneg s"
  show "stock_nonneg (snd (cancelRepair c i reason s))"
    unfolding cancelRepair_def
    by (simp add: Let_def io_throw_def I split: option.splits)
       (intro conjI impI allI keeps_bindD I keeps_intros keeps_restore_part)
qed

lemma keeps_claim_repair: "keeps (claim_repair c w body issue cl)"
proof (rule keepsI)
  fix s assume I: "stock_nonneg s"
  show "stock_nonneg (snd (claim_repair c w body issue cl s))"
    unfolding claim_repair_def
    by (simp add: Let_def io_throw_def I split: option.splits)
       (intro conjI impI allI keeps_bindD I keeps_intros)
qed

lemma keeps_claim_replace: "keeps (claim_replace c i w body cl)"
proof (rule keepsI)
  fix s assume I: "stock_nonneg s"
  show "stock_nonneg (snd (claim_replace c i w body cl s))"
    unfolding claim_replace_def
    by (simp add: Let_def io_throw_def I split: option.splits)
       (intro conjI impI allI keeps_bindD I keeps_intros)
qed

lemma keeps_claim_refund: "keeps (claim_refund c i w issue cl)"
proof (rule keepsI)
  fix s assume I: "stock_nonneg s"
  show "stock_nonneg (snd (claim_refund c i w issue cl s))"
    unfolding claim_refund_def
    by (simp add: Let_def io_throw_def I split: option.splits)
       (intro conjI impI allI keeps_bindD I keeps_intros)
qed

lemma keeps_case_prod: "(\<And>a b. keeps (f a b)) \<Longrightarrow> keeps (case x of (a, b) \<Rightarrow> f a b)"
  by (cases x) simp

lemma keeps_createClaim: "keeps (createClaim c i body)"
proof (rule keepsI)
  fix s assume I: "stock_nonneg s"
  show "stock_nonneg (snd (createClaim c i body s))"
    unfolding createClaim_def
    by (simp add: Let_def io_throw_def I split: option.splits)
       (intro conjI impI allI keeps_bindD I keeps_intros keeps_claim_repair keeps_claim_replace
          keeps_claim_refund keeps_case_prod)
qed


lemma keeps_exec: "stock_nonneg s \<Longrightarrow> stock_nonneg (exec op s)"
  by (cases op)
     (simp_all add: keepsD keeps_adjustStock keeps_createSale keeps_voidSale keeps_createReturn
        keeps_createExchange keeps_completeRepair keeps_cancelRepair keeps_createClaim)

lemma keeps_run_ops: "stock_nonneg s \<Longrightarrow> stock_nonneg (run_ops ops s)"
  unfolding run_ops_def by (induction ops arbitrary: s) (simp_all add: keeps_exec)

section \<open>Manual stock adjustments\<close>

lemma adjustment_types:
  "set (Object_values ADJUSTMENT_TYPES) = set increase_types \<union> set decrease_types"
  by (auto simp: Object_values_def ADJUSTMENT_TYPES_def increase_types_def decrease_types_def)


lemma isAddition: "set [''ADDITION'', ''PURCHASE'', ''RETURN'', ''TRANSFER_IN'', ''CORRECTION'']
  = set increase_types"
  by (simp add: increase_types_def)

lemma adjustStock_unfold:
  assumes "ar_productId body = Some pid" "ar_type body = Some t" "t \<noteq> []"
    "ar_quantity body = Some q" "0 < q" "products s pid = Some pr"
  shows "adjustStock c body s =
     (if t \<notin> set increase_types \<union> set decrease_types
      then (Inl (AppError 400 ''Invalid adjustment type''), s)
      else io_bind (Stock_getOrCreate pid) (\<lambda>previousQuantity.
             if (if t \<in> set increase_types then previousQuantity + q
                 else previousQuantity - q) < 0
             then io_throw (AppError 400 ''Insufficient stock'')
             else io_bind (Stock_save pid (if t \<in> set increase_types then previousQuantity + q
                                            else previousQuantity - q)) (\<lambda>_.
                  io_bind (StockAdjustment_create
                             (adjustment_of c body pid t q previousQuantity
                                (if t \<in> set increase_types then previousQuantity + q
                                 else previousQuantity - q))) (\<lambda>_.
                  io_return \<lparr>res_previousQuantity = previousQuantity,
                             res_newQuantity = (if t \<in> set increase_types
                                                then previousQuantity + q
                                                else previousQuantity - q),
                             res_change = (if t \<in> set increase_types
                                           then previousQuantity + q
                                           else previousQuantity - q) - previousQuantity\<rparr>))) s)"
  using assms
  unfolding adjustStock_def isAddition adjustment_types adjustment_of_def
  by (cases "t \<in> set increase_types")
     (simp_all add: io_throw_def Let_def del: set_simps cong: if_cong)





lemma adjustStock_rejects_overdraw:
  assumes "ar_productId body = Some pid" "ar_type body = Some t" "t \<in> set decrease_types"
    "ar_quantity body = Some q" "0 < q" "products s pid = Some pr" "qty s pid < q"
  shows "fst (adjustStock c body s) = Inl (AppError 400 ''Insufficient stock'')
    \<and> (\<forall>p. qty (snd (adjustStock c body s)) p = qty s p)
    \<and> adjustments (snd (adjustStock c body s)) = adjustments s
    \<and> (stocks s pid \<noteq> None \<longrightarrow> snd (adjustStock c body s) = s)"
proof -
  have t: "t \<noteq> []" "t \<notin> set increase_types"
    using assms(3) by (auto simp: decrease_types_def increase_types_def)
  show ?thesis
    using assms(7) t(2) assms(3)
    by (simp add: adjustStock_unfold [OF assms(1,2) t(1) assms(4,5,6)] io_bind_def
        io_throw_def Stock_getOrCreate_def qty_def split: option.splits)
qed

text \<open>
  Claim C1: whatever sequence of stock-mutating requests runs (manual adjustments, sales,
  voids, returns, exchanges, repair completions and cancellations, warranty claims), and
  whether each of them answers or fails, no product ever has a negative quantity; and a
  manual reduction that would take the quantity below zero is rejected with the
  insufficient-stock error, the quantity of every product and the adjustment history
  staying as they were (the database is untouched when the product already had a stock
  record; otherwise \<open>getOrCreate\<close> has created one at quantity 0).
\<close>

theorem stock_never_negative:
  "(stock_nonneg s \<longrightarrow> stock_nonneg (run_ops ops s))
   \<and> (ar_productId body = Some pid \<and> ar_type body = Some t \<and> t \<in> set decrease_types
        \<and> ar_quantity body = Some q \<and> 0 < q \<and> products s pid \<noteq> None \<and> qty s pid - q < 0
      \<longrightarrow> fst (adjustStock c body s) = Inl (AppError 400 ''Insufficient stock'')
          \<and> (\<forall>p. qty (snd (adjustStock c body s)) p = qty s p)
          \<and> adjustments (snd (adjustStock c body s)) = adjustments s
          \<and> (stocks s pid \<noteq> None \<longrightarrow> snd (adjustStock c body s) = s))"
proof (intro conjI impI)
  assume "stock_nonneg s"
  then show "stock_nonneg (run_ops ops s)" by (rule keeps_run_ops)
next
  assume a: "ar_productId body = Some pid \<and> ar_type body = Some t \<and> t \<in> set decrease_types
        \<and> ar_quantity body = Some q \<and> 0 < q \<and> products s pid \<noteq> None \<and> qty s pid - q < 0"
  then obtain pr where pr: "products s pid = Some pr" by auto
  from a have q: "qty s pid < q" by simp
  note r = adjustStock_rejects_overdraw [of body pid t q s pr c]
  from a pr q r show "fst (adjustStock c body s) = Inl (AppError 400 ''Insufficient stock'')"
    by blast
  from a pr q r show "\<forall>p. qty (snd (adjustStock c body s)) p = qty s p" by blast
  from a pr q r show "adjustments (snd (adjustStock c body s)) = adjustments s" by blast
  assume "stocks s pid \<noteq> None"
  with a pr q r show "snd (adjustStock c body s) = s" by blast
qed




lemma shop_nonneg: "stock_nonneg shop"
  by (simp add: stock_nonneg_def qty_def shop_def)

lemma shop_qty: "qty shop 1 = 5" "qty shop 2 = 10" "qty shop (Suc 0) = 5"
  by (simp_all add: qty_def shop_def)

lemma adjust_body_simps:
  "ar_productId (adjust_body t q) = Some 1" "ar_type (adjust_body t q) = Some t"
  "ar_quantity (adjust_body t q) = Some q" "adjust_body_ok (adjust_body t q)"
  by (simp_all add: adjust_body_def adjust_body_ok_def text_ok_def enum_ok_def str_or_null_def
      truthy_def trim_def is_space_def)



text \<open>
  In the shop, three requests of which the second and the third overdraw the phones leave
  the invariant intact, and a manual reduction by 6 of the 5 phones is rejected without
  any write.
\<close>

theorem stock_never_negative_witness:
  "stock_nonneg shop
   \<and> stock_nonneg (run_ops [AdjustStock c0 (adjust_body ''SALE'' 4),
                            CreateSale c0 (sale_body [line 1 2, line 1 2]),
                            AdjustStock c0 (adjust_body ''THEFT'' 9)] shop)
   \<and> qty shop 1 - 6 < 0
   \<and> adjustStock c0 (adjust_body ''REDUCTION'' 6) shop
       = (Inl (AppError 400 ''Insufficient stock''), shop)"
proof -
  have d: "''REDUCTION'' \<in> set decrease_types" by (simp add: decrease_types_def)
  have p: "products shop 1 \<noteq> None" "stocks shop 1 \<noteq> None" by (simp_all add: shop_def)
  from stock_never_negative [of shop _ "adjust_body ''REDUCTION'' 6" 1 "''REDUCTION''" 6 c0]
  show ?thesis
    using shop_nonneg d p by (simp add: adjust_body_simps shop_qty prod_eq_iff)
qed

section \<open>Sales and voids\<close>



lemma io_throw_Inr: "(io_throw e s = (Inr y, s')) = False"
  by (simp add: io_throw_def)





lemma unchanged_throw: "unchanged g (io_throw e)"
  by (simp add: unchanged_def io_throw_def)













lemma new_sale_items [simp]: "sale_items (new_sale c body items subtotal taxTotal) = items"
  by (simp add: new_sale_def Let_def split: prod.splits)

lemma new_sale_status [simp]:
  "sale_status (new_sale c body items subtotal taxTotal) = Some ''COMPLETED''"
  by (simp add: new_sale_def Let_def enum_get_def SALE_STATUS_def split: prod.splits)




lemmas shop_eval =
  shop_def c0_def phone_def cable_def line_def sale_body_def createSale_def voidSale_def
  new_sale_def sale_totals_def qty_def num_or_def round2_def str_or_null_def truthy_def
  Sale_create_def Sale_save_def sale_valid_def sale_item_valid_def payment_valid_def
  enum_ok_def enum_get_def text_ok_def trim_def is_space_def Object_values_def
  SALE_STATUS_def DISCOUNT_TYPES_def ADJUSTMENT_TYPES_def
  io_bind_def io_return_def io_throw_def deduct_item_def restore_item_def
  Stock_getOrCreate_def Stock_save_def StockAdjustment_create_def adjustment_valid_def
  findById_def Let_def floor_unique




text \<open>
  Claim C9: with 5 phones in stock, a sale whose two lines ask for 3 phones each passes
  the stock check of every line (each is checked against the 5 in stock, the lines total
  6), the sale is persisted, the first deduction leaves 2, and the second deduction asks
  \<open>stock.save()\<close> for the quantity \<open>2 - 3\<close>, which the schema refuses: the handler
  fails with the sale and the first deduction already written.
\<close>

theorem createSale_duplicate_lines_overdraw:
  "qty shop 1 = 5
   \<and> process_items shop [line 1 3, line 1 3] [] 0 0
       = Inr ([\<lparr>si_product = 1, si_quantity = 3, si_unitPrice = 150, si_discount = 0,
                 si_total = 495\<rparr>,
               \<lparr>si_product = 1, si_quantity = 3, si_unitPrice = 150, si_discount = 0,
                 si_total = 495\<rparr>], 900, 90)
   \<and> fst (createSale c0 (sale_body [line 1 3, line 1 3]) shop)
       = Inl (ValidationError ''Stock quantity cannot be negative'')
   \<and> qty (snd (createSale c0 (sale_body [line 1 3, line 1 3]) shop)) 1 = 2
   \<and> length (sales (snd (createSale c0 (sale_body [line 1 3, line 1 3]) shop))) = 1
   \<and> map adj_newQuantity (adjustments (snd (createSale c0 (sale_body [line 1 3, line 1 3]) shop)))
       = [2]
   \<and> Stock_save 1 (2 - 3) (snd (createSale c0 (sale_body [line 1 3, line 1 3]) shop))
       = (Inl (ValidationError ''Stock quantity cannot be negative''),
          snd (createSale c0 (sale_body [line 1 3, line 1 3]) shop))"
  by (simp add: shop_eval)


section \<open>Returns\<close>





lemma refund_return_simps [simp]:
  "ret_items (refund_return c body i items tot) = items"
  "ret_totalRefund (refund_return c body i items tot) = round2 tot"
  "ret_returnType (refund_return c body i items tot) = Some ''REFUND''"
  by (simp_all add: refund_return_def enum_get_def RETURN_TYPES_def)







section \<open>Exchanges\<close>


lemma exchange_return_simps [simp]:
  "ret_items (exchange_return c body i items tot j due) = items"
  "ret_totalRefund (exchange_return c body i items tot j due) = round2 tot"
  "ret_returnType (exchange_return c body i items tot j due) = Some ''EXCHANGE''"
  "ret_exchangeSale (exchange_return c body i items tot j due) = Some j"
  "ret_exchangeAmountDue (exchange_return c body i items tot j due) = max 0 due"
  "ret_refundMethod (exchange_return c body i items tot j due)
     = (if due < 0 then Some ''CASH'' else None)"
  by (simp_all add: exchange_return_def enum_get_def RETURN_TYPES_def)

lemma unchanged_returns_Sale_create: "unchanged returns (Sale_create d)"
  by (simp add: unchanged_def Sale_create_def)






section \<open>Cancelling a repair job\<close>

lemma restore_part_ok:
  assumes "part_valid part" "text_ok 500 (Some (''Cancel Repair: '' @ jn))"
    "0 \<le> qty s (pu_product part)"
  shows "\<exists>s' a. restore_part c jn i part s = (Inr (), s')
          \<and> (\<forall>p. qty s' p = qty s p + (if pu_product part = p then pu_quantity part else 0))
          \<and> adjustments s' = adjustments s @ [a]
          \<and> adjustment_summary a = return_adjustment part
          \<and> repairs s' = repairs s"
proof -
  obtain s1 where g: "Stock_getOrCreate (pu_product part) s = (Inr (qty s (pu_product part)), s1)"
    and s1: "\<forall>x. qty s1 x = qty s x" "adjustments s1 = adjustments s" "repairs s1 = repairs s"
    by (cases "stocks s (pu_product part)") (auto simp: Stock_getOrCreate_def qty_def)
  let ?a = "\<lparr>adj_product = pu_product part,
            adj_type = enum_get ADJUSTMENT_TYPES ''RETURN'',
            adj_quantity = pu_quantity part,
            adj_previousQuantity = qty s (pu_product part),
            adj_newQuantity = qty s (pu_product part) + pu_quantity part,
            adj_reason = Some (''Cancel Repair: '' @ jn),
            adj_reference = DocRef i,
            adj_referenceType = Some ''Manual'',
            adj_createdBy = ctx_userId c\<rparr>"
  have v: "adjustment_valid ?a"
    using assms(1,2)
    by (simp add: adjustment_valid_def part_valid_def enum_get_def ADJUSTMENT_TYPES_def
        Object_values_def enum_ok_def)
  have nn: "0 \<le> qty s (pu_product part) + pu_quantity part"
    using assms(1,3) by (simp add: part_valid_def)
  have "restore_part c jn i part s =
          (Inr (), s1\<lparr>stocks := (stocks s1)(pu_product part \<mapsto>
                          qty s (pu_product part) + pu_quantity part),
                       adjustments := adjustments s1 @
                         [?a\<lparr>adj_reason := map_option trim (adj_reason ?a),
                             adj_referenceType := Some ''Manual''\<rparr>]\<rparr>)"
    using v nn by (simp add: restore_part_def io_bind_def g Stock_save_def
        StockAdjustment_create_def)
  then show ?thesis
    using s1
    by (auto simp: qty_def adjustment_summary_def return_adjustment_def enum_get_def
        ADJUSTMENT_TYPES_def)
qed

lemma forEach_restore_part_ok:
  assumes "list_all part_valid parts" "text_ok 500 (Some (''Cancel Repair: '' @ jn))"
    "stock_nonneg s"
  shows "\<exists>s' new. forEach (restore_part c jn i) parts s = (Inr (), s')
          \<and> (\<forall>p. qty s' p = qty s p + used parts p)
          \<and> adjustments s' = adjustments s @ new
          \<and> map adjustment_summary new = map return_adjustment parts
          \<and> repairs s' = repairs s"
  using assms
proof (induction parts arbitrary: s)
  case Nil
  then show ?case by (simp add: io_return_def used_def)
next
  case (Cons part parts)
  from Cons.prems have pv: "part_valid part" "list_all part_valid parts"
    and nn: "0 \<le> qty s (pu_product part)"
    by (simp_all add: stock_nonneg_def)
  from restore_part_ok [OF pv(1) Cons.prems(2) nn, of c i] obtain s1 a where
    1: "restore_part c jn i part s = (Inr (), s1)"
       "\<forall>p. qty s1 p = qty s p + (if pu_product part = p then pu_quantity part else 0)"
       "adjustments s1 = adjustments s @ [a]" "adjustment_summary a = return_adjustment part"
       "repairs s1 = repairs s"
    by blast
  have "stock_nonneg s1"
    using 1(2) Cons.prems(3) pv(1) by (auto simp: stock_nonneg_def part_valid_def)
  from Cons.IH [OF pv(2) Cons.prems(2) this] obtain s' new where
    2: "forEach (restore_part c jn i) parts s1 = (Inr (), s')"
       "\<forall>p. qty s' p = qty s1 p + used parts p"
       "adjustments s' = adjustments s1 @ new"
       "map adjustment_summary new = map return_adjustment parts"
       "repairs s' = repairs s1"
    by blast
  show ?case
    using 1 2 by (intro exI [of _ s'] exI [of _ "a # new"]) (simp add: io_bind_def used_def)
qed

lemma length_trim_le: "length (trim t) \<le> length t"
  unfolding trim_def
  by (metis length_dropWhile_le length_rev order_trans)

text \<open>
  Claim C10: given a reason and an existing job, \<open>cancelRepair\<close> rejects the job exactly
  when its status is COMPLETED. For any other status, CANCELLED included, the request
  succeeds on a valid job: every part in \<open>partsUsed\<close> is added to the stock again, one
  RETURN adjustment per part is appended to the history, and the job is saved as
  CANCELLED with the caller as \<open>cancelledBy\<close> and the new reason.
\<close>

theorem cancelRepair_only_rejects_completed:
  assumes "findById (repairs s) repairId = Some repair" and "reason \<noteq> []"
  shows "(rj_status repair = Some ''COMPLETED'' \<longrightarrow>
            cancelRepair c repairId (Some reason) s
              = (Inl (AppError 400 ''Cannot cancel completed repair''), s))
       \<and> (rj_status repair \<noteq> Some ''COMPLETED'' \<and> repair_valid repair
            \<and> length (trim reason) \<le> 500
            \<and> text_ok 500 (Some (''Cancel Repair: '' @ rj_jobNumber repair))
            \<and> stock_nonneg s \<longrightarrow>
            (\<exists>s' new repair'.
                cancelRepair c repairId (Some reason) s = (Inr (), s')
              \<and> (\<forall>p. qty s' p = qty s p + used (rj_partsUsed repair) p)
              \<and> adjustments s' = adjustments s @ new
              \<and> map adjustment_summary new = map return_adjustment (rj_partsUsed repair)
              \<and> findById (repairs s') repairId = Some repair'
              \<and> rj_status repair' = Some ''CANCELLED''
              \<and> rj_cancelledBy repair' = Some (ctx_userId c)
              \<and> rj_cancelReason repair' = Some (trim reason)))"
proof (intro conjI impI)
  assume "rj_status repair = Some ''COMPLETED''"
  then show "cancelRepair c repairId (Some reason) s
              = (Inl (AppError 400 ''Cannot cancel completed repair''), s)"
    using assms by (simp add: cancelRepair_def truthy_def enum_get_def REPAIR_STATUS_def)
next
  assume a: "rj_status repair \<noteq> Some ''COMPLETED'' \<and> repair_valid repair
            \<and> length (trim reason) \<le> 500
            \<and> text_ok 500 (Some (''Cancel Repair: '' @ rj_jobNumber repair))
            \<and> stock_nonneg s"
  then have pv: "list_all part_valid (rj_partsUsed repair)"
    by (simp add: repair_valid_def)
  from forEach_restore_part_ok [OF pv, of "rj_jobNumber repair" s c repairId] a
  obtain s1 new where
    1: "forEach (restore_part c (rj_jobNumber repair) repairId) (rj_partsUsed repair) s
          = (Inr (), s1)"
       "\<forall>p. qty s1 p = qty s p + used (rj_partsUsed repair) p"
       "adjustments s1 = adjustments s @ new"
       "map adjustment_summary new = map return_adjustment (rj_partsUsed repair)"
       "repairs s1 = repairs s"
    by blast
  let ?d = "repair\<lparr>rj_status := enum_get REPAIR_STATUS ''CANCELLED'',
                    rj_cancelledBy := Some (ctx_userId c), rj_cancelReason := Some reason\<rparr>"
  have v: "repair_valid ?d"
    using a by (simp add: repair_valid_def enum_get_def REPAIR_STATUS_def enum_ok_def
        Object_values_def text_ok_def)
  from assms(1) have len: "repairId < length (repairs s)"
    by (simp add: findById_def split: if_splits)
  have c: "cancelRepair c repairId (Some reason) s
             = (Inr (), s1\<lparr>repairs := (repairs s1)
                               [repairId := repair_pre_save (repair_trimmed ?d)]\<rparr>)"
    using assms a 1(1) v
    by (simp add: cancelRepair_def truthy_def enum_get_def REPAIR_STATUS_def io_bind_def
        RepairJob_save_def)
  show "\<exists>s' new repair'.
                cancelRepair c repairId (Some reason) s = (Inr (), s')
              \<and> (\<forall>p. qty s' p = qty s p + used (rj_partsUsed repair) p)
              \<and> adjustments s' = adjustments s @ new
              \<and> map adjustment_summary new = map return_adjustment (rj_partsUsed repair)
              \<and> findById (repairs s') repairId = Some repair'
              \<and> rj_status repair' = Some ''CANCELLED''
              \<and> rj_cancelledBy repair' = Some (ctx_userId c)
              \<and> rj_cancelReason repair' = Some (trim reason)"
    unfolding c using 1 len
    by (intro exI [of _ "s1\<lparr>repairs := (repairs s1)
                               [repairId := repair_pre_save (repair_trimmed ?d)]\<rparr>"]
          exI [of _ new] exI [of _ "repair_pre_save (repair_trimmed ?d)"])
       (simp add: qty_def findById_def repair_pre_save_def repair_trimmed_def Let_def
          enum_get_def REPAIR_STATUS_def)
qed

lemma workshop_simps:
  "findById (repairs workshop) 0 = Some cancelled_job"
  "rj_status cancelled_job \<noteq> Some ''COMPLETED''"
  "repair_valid cancelled_job"
  "text_ok 500 (Some (''Cancel Repair: '' @ rj_jobNumber cancelled_job))"
  "stock_nonneg workshop"
  "rj_status cancelled_job = Some ''CANCELLED''"
  "qty workshop 2 = 10"
  "used (rj_partsUsed cancelled_job) 2 = 2"
  by (simp_all add: workshop_def cancelled_job_def findById_def repair_valid_def part_valid_def
      enum_ok_def Object_values_def REPAIR_STATUS_def PAYMENT_STATUS_def text_ok_def trim_def
      is_space_def stock_nonneg_def qty_def shop_def used_def)

text \<open>
  A job that user 3 had cancelled, with two cables among its parts: user 7 cancels it
  again, the cables in stock go from 10 to 12, one more adjustment is recorded and the
  job now names user 7; the same job with the status COMPLETED is rejected.
\<close>

theorem cancelRepair_only_rejects_completed_witness:
  "rj_status cancelled_job = Some ''CANCELLED''
   \<and> qty workshop 2 = 10
   \<and> fst (cancelRepair c0 0 (Some ''cancel again'') workshop) = Inr ()
   \<and> qty (snd (cancelRepair c0 0 (Some ''cancel again'') workshop)) 2 = 12
   \<and> length (adjustments (snd (cancelRepair c0 0 (Some ''cancel again'') workshop)))
       = length (adjustments workshop) + 1
   \<and> map rj_cancelledBy (repairs (snd (cancelRepair c0 0 (Some ''cancel again'') workshop)))
       = [Some 7]
   \<and> cancelRepair c0 0 (Some ''cancel again'')
        (workshop\<lparr>repairs := [cancelled_job\<lparr>rj_status := Some ''COMPLETED''\<rparr>]\<rparr>)
       = (Inl (AppError 400 ''Cannot cancel completed repair''),
          workshop\<lparr>repairs := [cancelled_job\<lparr>rj_status := Some ''COMPLETED''\<rparr>]\<rparr>)"
proof -
  have t: "length (trim ''cancel again'') \<le> 500" "''cancel again'' \<noteq> []"
    by (simp_all add: trim_def is_space_def)
  from cancelRepair_only_rejects_completed [OF workshop_simps(1) t(2), of c0]
    workshop_simps(2-5) t(1)
  obtain s' new repair' where
    1: "cancelRepair c0 0 (Some ''cancel again'') workshop = (Inr (), s')"
       "\<forall>p. qty s' p = qty workshop p + used (rj_partsUsed cancelled_job) p"
       "adjustments s' = adjustments workshop @ new"
       "map adjustment_summary new = map return_adjustment (rj_partsUsed cancelled_job)"
       "findById (repairs s') 0 = Some repair'"
       "rj_cancelledBy repair' = Some (ctx_userId c0)"
    by blast
  from arg_cong [OF 1(4), of length] have "length new = 1"
    by (simp add: cancelled_job_def)
  moreover have "map rj_cancelledBy (repairs (snd (cancelRepair c0 0 (Some ''cancel again'') workshop)))
       = [Some 7]"
    by (simp add: cancelRepair_def workshop_def cancelled_job_def shop_eval restore_part_def
        RepairJob_save_def repair_valid_def part_valid_def REPAIR_STATUS_def PAYMENT_STATUS_def
        repair_pre_save_def repair_trimmed_def)
  moreover have
    "findById (repairs (workshop\<lparr>repairs := [cancelled_job\<lparr>rj_status := Some ''COMPLETED''\<rparr>]\<rparr>)) 0
       = Some (cancelled_job\<lparr>rj_status := Some ''COMPLETED''\<rparr>)"
    by (simp add: findById_def)
  note cancelRepair_only_rejects_completed [OF this t(2), of c0]
  ultimately show ?thesis
    using 1 workshop_simps(6-8) by (simp add: c0_def)
qed


section \<open>Warranty claims with a replacement or a refund\<close>

lemma claim_replace_result:
  assumes "products s (w_product w) = Some pr" "clr_replacementProductId body = None"
    "1 \<le> qty s (w_product w)"
  shows "claim_replace c warrantyId w body cl s =
           (Inl (ValidationError ''StockAdjustment validation failed''),
            s\<lparr>stocks := (stocks s)(w_product w \<mapsto> qty s (w_product w) - 1)\<rparr>)"
proof -
  from assms(3) obtain q where q: "stocks s (w_product w) = Some q" "1 \<le> q"
    by (cases "stocks s (w_product w)") (simp_all add: qty_def)
  then show ?thesis
    using assms(1,2)
    by (simp add: claim_replace_def io_bind_def io_throw_def Stock_getOrCreate_def
        Stock_save_def StockAdjustment_create_def adjustment_valid_def enum_get_def
        ADJUSTMENT_TYPES_def qty_def Let_def)
qed

text \<open>
  Claim C2 fails on warranty replacements: \<open>createClaim\<close> with the resolution REPLACE on a
  valid warranty whose product is in stock saves the stock record with one unit less and
  then fails in \<open>StockAdjustment.create\<close>, because \<open>ADJUSTMENT_TYPES.WARRANTY_REPLACE\<close>
  is not defined and the schema requires a type: the quantity is updated, no adjustment
  is recorded, and the claim is not stored.
\<close>

theorem replace_claim_deducts_without_adjustment:
  assumes "clr_issue body = Some issue" and "issue \<noteq> []"
    and "findById (warranties s) warrantyId = Some w" and "checkValidity (ctx_now c) w"
    and "clr_resolution body = Some ''REPLACE''" and "clr_replacementProductId body = None"
    and "products s (w_product w) = Some pr" and "1 \<le> qty s (w_product w)"
  shows "\<exists>s'. createClaim c warrantyId body s
                 = (Inl (ValidationError ''StockAdjustment validation failed''), s')
              \<and> qty s' (w_product w) = qty s (w_product w) - 1
              \<and> adjustments s' = adjustments s
              \<and> warranties s' = warranties s"
  using assms(1-5)
  by (simp add: createClaim_def io_bind_def enum_get_def CLAIM_RESOLUTIONS_def Let_def
      claim_replace_result [OF assms(7,6,8)] qty_def)

lemma Return_create_refund_fails:
  "ret_returnType d = enum_get RETURN_TYPES ''WARRANTY_REFUND'' \<Longrightarrow>
   Return_create d s = (Inl (ValidationError ''Return validation failed''), s)"
  by (simp add: Return_create_def return_valid_def enum_get_def RETURN_TYPES_def
      split: option.splits)

lemma claim_refund_fails: "\<exists>e. claim_refund c warrantyId w issue cl s = (Inl e, s)"
  by (cases "products s (w_product w)")
     (simp_all add: claim_refund_def Let_def io_bind_def Return_create_refund_fails)

text \<open>
  Claim C5 fails on the code: \<open>createClaim\<close> with the resolution REFUND on a valid warranty
  always fails and writes nothing, because \<open>RETURN_TYPES.WARRANTY_REFUND\<close> is not defined
  and the return schema requires a type: no return record is created and the warranty
  keeps its status, which is not VOID.
\<close>

theorem refund_claim_never_completes:
  assumes "clr_issue body = Some issue" and "issue \<noteq> []"
    and "findById (warranties s) warrantyId = Some w" and "checkValidity (ctx_now c) w"
    and "clr_resolution body = Some ''REFUND''"
  shows "(\<exists>e. createClaim c warrantyId body s = (Inl e, s))
         \<and> w_status w \<noteq> Some ''VOID''"
proof -
  obtain e where "claim_refund c warrantyId w issue
     \<lparr>cl_claimNumber = ctx_claimNumber c, cl_issue = issue,
      cl_resolution = str_or_null (clr_resolution body), cl_repairJob = None,
      cl_replacementProduct = None, cl_returnRecord = None, cl_refundAmount = 0,
      cl_claimCost = 0, cl_notes = str_or_null (clr_notes body),
      cl_processedBy = ctx_userId c\<rparr> s = (Inl e, s)"
    using claim_refund_fails by blast
  then have "createClaim c warrantyId body s = (Inl e, s)"
    using assms
    by (simp add: createClaim_def io_bind_def enum_get_def CLAIM_RESOLUTIONS_def Let_def)
  moreover have "w_status w \<noteq> Some ''VOID''"
    using assms(4) by (auto simp: checkValidity_def enum_get_def WARRANTY_STATUS_def)
  ultimately show ?thesis by blast
qed

lemma warranted_simps:
  "findById (warranties warranted) 0 = Some phone_warranty"
  "checkValidity (ctx_now c0) phone_warranty"
  "w_product phone_warranty = 1"
  "products warranted 1 = Some phone"
  "qty warranted 1 = 3"
  "length (adjustments warranted) = 1"
  "length (returns warranted) = 0"
  "products warranted (Suc 0) = Some phone"
  "qty warranted (Suc 0) = 3"
  by (simp_all add: warranted_def sold_two_def phone_warranty_def findById_def checkValidity_def
      WARRANTY_STATUS_def shop_eval)

text \<open>
  After the sale of two phones 3 are in stock and one adjustment is on record; the
  replacement claim on the phone warranty fails, 2 phones are left, and there is still
  one adjustment and no claim.
\<close>

theorem replace_claim_deducts_without_adjustment_witness:
  "qty warranted 1 = 3 \<and> length (adjustments warranted) = 1
   \<and> fst (createClaim c0 0 (claim_body ''REPLACE'') warranted)
       = Inl (ValidationError ''StockAdjustment validation failed'')
   \<and> qty (snd (createClaim c0 0 (claim_body ''REPLACE'') warranted)) 1 = 2
   \<and> length (adjustments (snd (createClaim c0 0 (claim_body ''REPLACE'') warranted))) = 1
   \<and> map (\<lambda>w. length (w_claims w))
         (warranties (snd (createClaim c0 0 (claim_body ''REPLACE'') warranted))) = [0]"
proof -
  have b: "clr_issue (claim_body ''REPLACE'') = Some ''does not charge''"
    "''does not charge'' \<noteq> []" "clr_resolution (claim_body ''REPLACE'') = Some ''REPLACE''"
    "clr_replacementProductId (claim_body ''REPLACE'') = None"
    by (simp_all add: claim_body_def)
  have p: "products warranted (w_product phone_warranty) = Some phone"
    "1 \<le> qty warranted (w_product phone_warranty)"
    by (simp_all add: warranted_simps)
  from replace_claim_deducts_without_adjustment
    [OF b(1,2) warranted_simps(1,2) b(3,4) p]
  show ?thesis
    using warranted_simps by (auto simp: warranted_def phone_warranty_def)
qed

text \<open>
  The refund claim on the active phone warranty fails in \<open>Return.create\<close> and leaves the
  database as it was, without any return record.
\<close>

theorem refund_claim_never_completes_witness:
  "w_status phone_warranty = Some ''ACTIVE''
   \<and> createClaim c0 0 (claim_body ''REFUND'') warranted
       = (Inl (ValidationError ''Return validation failed''), warranted)
   \<and> returns warranted = []"
proof -
  have b: "clr_issue (claim_body ''REFUND'') = Some ''does not charge''"
    "''does not charge'' \<noteq> []" "clr_resolution (claim_body ''REFUND'') = Some ''REFUND''"
    by (simp_all add: claim_body_def)
  from refund_claim_never_completes [OF b(1,2) warranted_simps(1,2) b(3)]
  obtain e where e: "createClaim c0 0 (claim_body ''REFUND'') warranted = (Inl e, warranted)"
    by blast
  have "fst (createClaim c0 0 (claim_body ''REFUND'') warranted)
          = Inl (ValidationError ''Return validation failed'')"
    using warranted_simps(1,2,4)
    by (simp add: createClaim_def claim_body_def io_bind_def enum_get_def CLAIM_RESOLUTIONS_def
        Let_def claim_refund_def warranted_simps(3) Return_create_refund_fails)
  with e show ?thesis
    using warranted_simps(7) by (simp add: phone_warranty_def)
qed

end
